theory Spec2Isabelle
  imports Main "HOL-Library.AList" "HOL-Library.Code_Target_Nat"
begin

section \<open>Strings, template literals and JSON text\<close>

text \<open>
  The program is a TypeScript script run by Node. Its strings are modelled as HOL strings;
  a template literal is the concatenation of its pieces. \<open>Array.prototype.join\<close> puts the
  separator between the elements and gives the empty string for the empty array.
\<close>

fun join :: "string \<Rightarrow> string list \<Rightarrow> string" where
  "join sep [] = []"
| "join sep [x] = x"
| "join sep (x # y # ys) = x @ sep @ join sep (y # ys)"

text \<open>
  \<open>JSON.stringify\<close> of a string: the text between double quotes, with the double quote,
  the backslash and the control characters below U+0020 escaped (the short escapes for
  backspace, tab, line feed, form feed and carriage return, four lower-case hex digits
  otherwise). Every other character stands for itself.
\<close>

definition hex_digit :: "nat \<Rightarrow> char" where
  "hex_digit n = (if n < 10 then char_of (48 + n) else char_of (87 + n))"

definition quote_char :: "char \<Rightarrow> string" where
  "quote_char c =
     (let n = (of_char c :: nat) in
      if n = 8 then [CHR 0x5C, CHR ''b'']
      else if n = 9 then [CHR 0x5C, CHR ''t'']
      else if n = 10 then [CHR 0x5C, CHR ''n'']
      else if n = 12 then [CHR 0x5C, CHR ''f'']
      else if n = 13 then [CHR 0x5C, CHR ''r'']
      else if n = 34 then [CHR 0x5C, CHR 0x22]
      else if n = 92 then [CHR 0x5C, CHR 0x5C]
      else if n < 32 then [CHR 0x5C, CHR ''u'', CHR ''0'', CHR ''0'',
                           hex_digit (n div 16), hex_digit (n mod 16)]
      else [c])"

definition quote_json :: "string \<Rightarrow> string" where
  "quote_json s = [CHR 0x22] @ concat (map quote_char s) @ [CHR 0x22]"

section \<open>The person container\<close>

text \<open>
  \<open>type PersonContainer = { [key: string]: string[] }\<close>, created as the object literal
  \<open>{}\<close>. Its own properties are kept as an association list in the order of their
  creation, which is the order \<open>JSON.stringify\<close> needs. The object literal inherits from
  \<open>Object.prototype\<close>, so reading \<open>personContainer[name]\<close> for a name it does not own
  finds the inherited member when the name is one of the prototype's.
\<close>

type_synonym PersonContainer = "(string \<times> string list) list"

definition object_prototype_keys :: "string list" where
  "object_prototype_keys =
     [''constructor'', ''__defineGetter__'', ''__defineSetter__'', ''hasOwnProperty'',
      ''__lookupGetter__'', ''__lookupSetter__'', ''isPrototypeOf'',
      ''propertyIsEnumerable'', ''toString'', ''valueOf'', ''__proto__'',
      ''toLocaleString'']"

datatype property = Undefined | Array "string list" | Inherited

definition get_property :: "PersonContainer \<Rightarrow> string \<Rightarrow> property" where
  "get_property pc k =
     (case map_of pc k of
        Some xs \<Rightarrow> Array xs
      | None \<Rightarrow> if k \<in> set object_prototype_keys then Inherited else Undefined)"

text \<open>
  The order of an object's own keys: the array indices (canonical decimal numerals below
  \<open>2^32 - 1\<close>) in ascending numeric order, then the other keys in creation order.
\<close>

definition is_digit :: "char \<Rightarrow> bool" where
  "is_digit c \<longleftrightarrow> 48 \<le> (of_char c :: nat) \<and> (of_char c :: nat) \<le> 57"

definition decimal :: "string \<Rightarrow> nat" where
  "decimal k = foldl (\<lambda>n c. 10 * n + ((of_char c :: nat) - 48)) 0 k"

definition array_index :: "string \<Rightarrow> nat option" where
  "array_index k =
     (if k \<noteq> [] \<and> list_all is_digit k \<and> (k = ''0'' \<or> hd k \<noteq> CHR ''0'')
         \<and> decimal k < 4294967295
      then Some (decimal k) else None)"

definition own_entries :: "PersonContainer \<Rightarrow> PersonContainer" where
  "own_entries pc =
     sort_key (\<lambda>(k, xs). the (array_index k)) (filter (\<lambda>(k, xs). array_index k \<noteq> None) pc)
     @ filter (\<lambda>(k, xs). array_index k = None) pc"

definition stringify_array :: "string list \<Rightarrow> string" where
  "stringify_array xs = ''['' @ join '','' (map quote_json xs) @ '']''"

definition JSON_stringify :: "PersonContainer \<Rightarrow> string" where
  "JSON_stringify pc =
     ''{'' @ join '','' (map (\<lambda>(k, xs). quote_json k @ '':'' @ stringify_array xs) (own_entries pc))
     @ ''}''"

section \<open>The collaborators: graph store and structured-completion client\<close>

text \<open>
  Errors are values. \<open>StoreUnreachable\<close> is a rejected \<open>executeQuery\<close>, \<open>ClientError\<close> a
  rejected \<open>openai.beta.chat.completions.parse\<close>, \<open>TypeError\<close> what JavaScript throws when
  a value that is not a function is called.
\<close>

datatype error = StoreUnreachable | ClientError | TypeError

text \<open>The three query texts the program sends, with their parameters.\<close>

datatype query =
    MatchSkills
  | MatchPersonsWithSkill string
  | MergeHasSkill string string

text \<open>
  The store holds Person nodes and Skill nodes, identified by name, and has-skill edges
  between them. Lists keep the order in which the store returns rows, and can hold a
  state with duplicates.
\<close>

record graph_store =
  person_nodes :: "string list"
  skill_nodes :: "string list"
  has_skill :: "(string \<times> string) list"

text \<open>
  Modelled from the spec: the query executor of the graph store, which is a service
  outside the repository. Section 6 of the spec names the three capabilities: match all
  nodes of type Skill; match Person nodes connected to a given Skill node by a has-skill
  edge; merge (idempotent-create) a Person, a Skill, and the edge between them. A merge
  creates what is absent and leaves what is present. The rows are the name properties the
  program reads; it reads nothing from the rows of the merge.
\<close>

definition merge_into :: "'a \<Rightarrow> 'a list \<Rightarrow> 'a list" where
  "merge_into x xs = (if x \<in> set xs then xs else xs @ [x])"

text \<open>
  Modelled from the spec: what the store answers to each of the three queries, and what
  the merge does to it. The two match queries leave the store as it is.
\<close>

fun run_query :: "query \<Rightarrow> graph_store \<Rightarrow> string list \<times> graph_store" where
  "run_query MatchSkills g = (skill_nodes g, g)"
| "run_query (MatchPersonsWithSkill skillName) g =
     (map fst (filter (\<lambda>(p, k). k = skillName) (has_skill g)), g)"
| "run_query (MergeHasSkill personName skillName) g =
     ([], g\<lparr>person_nodes := merge_into personName (person_nodes g),
            skill_nodes := merge_into skillName (skill_nodes g),
            has_skill := merge_into (personName, skillName) (has_skill g)\<rparr>)"

text \<open>
  The response formats passed to the completion client (the zod schemas \<open>Person\<close>,
  \<open>UsefulSkills\<close> and \<open>BestMatchingPerson\<close>).
\<close>

datatype response_format = PersonFormat | UsefulSkillsFormat | BestMatchingPersonFormat

text \<open>
  What the run cannot decide is a parameter: the process environment, whether the driver
  connects, and the answer of the completion client to a system and a user message, per
  response format. An answer is an error (the call rejects) or the \<open>parsed\<close> field of the
  first choice: \<open>None\<close> when the model produced no parseable object, otherwise the value
  the schema describes (\<open>Person\<close> as name and skills, \<open>UsefulSkills\<close> as its skills,
  \<open>BestMatchingPerson\<close> as personName and reason).
\<close>

record world =
  process_env :: "string \<Rightarrow> string option"
  driver_connects :: "string \<Rightarrow> string \<Rightarrow> string \<Rightarrow> bool"
  parse_person :: "string \<Rightarrow> string \<Rightarrow> error + (string \<times> string list) option"
  parse_useful_skills :: "string \<Rightarrow> string \<Rightarrow> error + string list option"
  parse_best_matching_person :: "string \<Rightarrow> string \<Rightarrow> error + (string \<times> string) option"

text \<open>
  What a run does is recorded as a trace: console lines, queries sent to the store and
  completion calls, the last two with the error they rejected with, if any.
\<close>

datatype event =
    Console string
  | ConsoleSkills "string list"
  | ConsoleMatch "(string \<times> string) option"
  | ExecuteQuery query "error option"
  | ChatParse response_format string string "error option"

text \<open>
  The state threaded through the run: the store, the outcome of the coming queries
  (\<open>True\<close> for a query the store does not answer; none left means the store answers) and
  the trace so far.
\<close>

record state =
  store :: graph_store
  outages :: "bool list"
  trace :: "event list"

definition emit :: "event \<Rightarrow> state \<Rightarrow> state" where
  "emit ev s = s\<lparr>trace := trace s @ [ev]\<rparr>"

definition console :: "string \<Rightarrow> state \<Rightarrow> state" where
  "console line s = emit (Console line) s"

text \<open>\<open>await databaseDriver.executeQuery(...)\<close>: rejects, or answers and updates the store.\<close>

definition executeQuery :: "query \<Rightarrow> state \<Rightarrow> (error + string list) \<times> state" where
  "executeQuery q s =
     (case outages s of
        True # rest \<Rightarrow>
          (Inl StoreUnreachable, emit (ExecuteQuery q (Some StoreUnreachable)) (s\<lparr>outages := rest\<rparr>))
      | _ \<Rightarrow>
          (let (rows, g) = run_query q (store s)
           in (Inr rows, emit (ExecuteQuery q None) (s\<lparr>store := g, outages := tl (outages s)\<rparr>))))"

text \<open>\<open>await openai.beta.chat.completions.parse(...)\<close> for a response format.\<close>

definition chat_parse ::
  "response_format \<Rightarrow> (string \<Rightarrow> string \<Rightarrow> error + 'a) \<Rightarrow> string \<Rightarrow> string \<Rightarrow> state
     \<Rightarrow> (error + 'a) \<times> state" where
  "chat_parse fmt answer systemContent userContent s =
     (case answer systemContent userContent of
        Inl e \<Rightarrow> (Inl e, emit (ChatParse fmt systemContent userContent (Some e)) s)
      | Inr parsed \<Rightarrow> (Inr parsed, emit (ChatParse fmt systemContent userContent None) s))"

section \<open>The program\<close>

text \<open>
  The functions are those of the later of the two versions of the script in the
  repository; the earlier one, \<open>src/index.ts\<close>, has the same functions up to
  \<open>findNecessarySkills\<close> and a \<open>main\<close> that stops after printing the useful skills.
\<close>

text \<open>
  \<open>connectDatabase\<close>: the three environment variables must be set and not empty, and the
  driver must connect; otherwise the process exits with code 1 (\<open>Inl 1\<close>).
\<close>

definition unset :: "string option \<Rightarrow> bool" where
  "unset v = (v = None \<or> v = Some [])"

definition connectDatabase :: "world \<Rightarrow> state \<Rightarrow> (nat + unit) \<times> state" where
  "connectDatabase w s0 =
     (let s = console ''Connecting to database...'' s0;
          databaseUri = process_env w ''NEO4J_URI'';
          databaseUsername = process_env w ''NEO4J_USERNAME'';
          databasePassword = process_env w ''NEO4J_PASSWORD''
      in if unset databaseUri
         then (Inl 1, console (''Please set the environment variable '' @ [CHR 0x27] @ ''NEO4J_URI'' @ [CHR 0x27]) s)
         else if unset databaseUsername
         then (Inl 1, console (''Please set the environment variable '' @ [CHR 0x27] @ ''NEO4J_USERNAME'' @ [CHR 0x27]) s)
         else if unset databasePassword
         then (Inl 1, console (''Please set the environment variable '' @ [CHR 0x27] @ ''NEO4J_PASSWORD'' @ [CHR 0x27]) s)
         else if driver_connects w (the databaseUri) (the databaseUsername) (the databasePassword)
         then (Inr (), s)
         else (Inl 1, console ''Can't connect to database.'' s))"

text \<open>\<open>getAllSkills\<close>: one query; the skill list is the \<open>skillName\<close> of every row.\<close>

definition getAllSkills :: "state \<Rightarrow> (error + string list) \<times> state" where
  "getAllSkills s0 =
     (case executeQuery MatchSkills (console ''Getting all skills...'' s0) of
        (Inl e, s) \<Rightarrow> (Inl e, s)
      | (Inr records, s) \<Rightarrow> (Inr (foldl (\<lambda>skillList skillName. skillList @ [skillName]) [] records), s))"

text \<open>
  \<open>getPersonList\<close>. The inner loop runs over the rows of one query: a person whose entry
  is falsy gets a new one-element array, any other entry is pushed to. An own entry is an
  array, which is truthy and has \<open>push\<close>; an inherited member of \<open>Object.prototype\<close> is
  truthy too and has no \<open>push\<close>, so the call throws a TypeError.
\<close>

fun add_records :: "string \<Rightarrow> string list \<Rightarrow> PersonContainer \<Rightarrow> error + PersonContainer" where
  "add_records necessarySkill [] personContainer = Inr personContainer"
| "add_records necessarySkill (personName # records) personContainer =
     (case get_property personContainer personName of
        Undefined \<Rightarrow>
          add_records necessarySkill records
            (AList.update personName [necessarySkill] personContainer)
      | Array skills \<Rightarrow>
          add_records necessarySkill records
            (AList.map_entry personName (\<lambda>xs. xs @ [necessarySkill]) personContainer)
      | Inherited \<Rightarrow> Inl TypeError)"

fun query_skills :: "string list \<Rightarrow> PersonContainer \<Rightarrow> state \<Rightarrow> (error + PersonContainer) \<times> state" where
  "query_skills [] personContainer s = (Inr personContainer, s)"
| "query_skills (necessarySkill # rest) personContainer s =
     (case executeQuery (MatchPersonsWithSkill necessarySkill) s of
        (Inl e, s') \<Rightarrow> (Inl e, s')
      | (Inr records, s') \<Rightarrow>
          (case add_records necessarySkill records personContainer of
             Inl e \<Rightarrow> (Inl e, s')
           | Inr personContainer' \<Rightarrow> query_skills rest personContainer' s'))"

definition getPersonList :: "string list \<Rightarrow> state \<Rightarrow> (error + PersonContainer) \<times> state" where
  "getPersonList necessarySkills s =
     query_skills necessarySkills []
       (console ''Getting all persons having the necessary skills...'' s)"

text \<open>\<open>findMatchingPerson\<close>: one completion call; the result is \<open>parsed\<close>, which may be null.\<close>

definition matchSystemMessage :: string where
  "matchSystemMessage =
     ''Find the person with the best matching skillset to solve the problem and justify your decision shortly.''"

definition matchUserMessage :: "PersonContainer \<Rightarrow> string \<Rightarrow> string" where
  "matchUserMessage personContainer problem =
     ''The problem is the following: '' @ [CHR 0x27] @ problem @ [CHR 0x27]
     @ '' and the persons with the skills are the following: ''
     @ JSON_stringify personContainer @ '' ''"

definition findMatchingPerson ::
  "world \<Rightarrow> PersonContainer \<Rightarrow> string \<Rightarrow> state \<Rightarrow> (error + (string \<times> string) option) \<times> state" where
  "findMatchingPerson w personContainer problem s =
     chat_parse BestMatchingPersonFormat (parse_best_matching_person w)
       matchSystemMessage (matchUserMessage personContainer problem)
       (console ''Finding matching person...'' s)"

text \<open>\<open>addSkillToPerson\<close>: two console lines and the merge query; the result is not read.\<close>

definition addSkillToPerson :: "string \<Rightarrow> string \<Rightarrow> state \<Rightarrow> (error + unit) \<times> state" where
  "addSkillToPerson person skill s =
     (case executeQuery (MergeHasSkill person skill)
             (console (''Adding skill '' @ skill) (console ''Adding skill to person...'' s)) of
        (Inl e, s') \<Rightarrow> (Inl e, s')
      | (Inr result, s') \<Rightarrow> (Inr (), s'))"

text \<open>
  \<open>extractSkills\<close>: the system message names the person, and names the existing skills
  only when there are some. The result is \<open>parsed?.skills\<close>.
\<close>

definition extractSystemContent :: "string \<Rightarrow> string list \<Rightarrow> string" where
  "extractSystemContent person existingSkills =
     (let existingSkillJoined = join '', '' existingSkills;
          systemContent = ''Extract the skills (preferably in one word) of the person called '' @ person @ ''.''
      in if length existingSkills \<noteq> 0
         then ''Extract the skills (preferably in one word) of the person called '' @ person
              @ ''. The following skills already exist and can be used, but if the person has skills not in this list, create a new one: ''
              @ existingSkillJoined
         else systemContent)"

definition extractSkills ::
  "world \<Rightarrow> string \<Rightarrow> string \<Rightarrow> string list \<Rightarrow> state \<Rightarrow> (error + string list option) \<times> state" where
  "extractSkills w text person existingSkills s =
     (case chat_parse PersonFormat (parse_person w)
             (extractSystemContent person existingSkills) text
             (console ''Extracting skills...'' s) of
        (Inl e, s') \<Rightarrow> (Inl e, s')
      | (Inr parsed, s') \<Rightarrow> (Inr (map_option snd parsed), s'))"

text \<open>
  \<open>findNecessarySkills\<close>: the system message is the instruction followed by the joined
  skill list, whatever the list is. The result is \<open>parsed?.skills\<close>.
\<close>

definition necessarySystemContent :: "string list \<Rightarrow> string" where
  "necessarySystemContent existingSkills =
     ''Find the skills out of the following list that could help the most with the problem the user describes. ''
     @ join '', '' existingSkills"

definition findNecessarySkills ::
  "world \<Rightarrow> string \<Rightarrow> string list \<Rightarrow> state \<Rightarrow> (error + string list option) \<times> state" where
  "findNecessarySkills w text existingSkills s =
     (case chat_parse UsefulSkillsFormat (parse_useful_skills w)
             (necessarySystemContent existingSkills) text
             (console ''Finding necessary skills...'' s) of
        (Inl e, s') \<Rightarrow> (Inl e, s')
      | (Inr parsed, s') \<Rightarrow> (Inr parsed, s'))"

text \<open>
  The body of \<open>main\<close> after the connection, with the problem text as a parameter (the
  script fixes it). The skills of the biography are a literal and the loop over them has
  an empty body: \<open>extractSkills\<close> and \<open>addSkillToPerson\<close> are commented out there.
  \<open>if (usefulSkills)\<close> tests a value that is an array or undefined; every array is truthy,
  the empty one too, so the branch is taken exactly when the value is not undefined.
\<close>

definition workflow :: "world \<Rightarrow> string \<Rightarrow> state \<Rightarrow> (error + unit) \<times> state" where
  "workflow w problem s0 =
     (case getAllSkills s0 of
        (Inl e, s1) \<Rightarrow> (Inl e, s1)
      | (Inr allSkills, s1) \<Rightarrow>
          (let extractedSkills = [''Java'', ''JavaScript'', ''Rust''];
               s2 = fold (\<lambda>skill s. s) extractedSkills s1
           in case findNecessarySkills w problem allSkills s2 of
                (Inl e, s3) \<Rightarrow> (Inl e, s3)
              | (Inr None, s3) \<Rightarrow> (Inr (), s3)
              | (Inr (Some usefulSkills), s3) \<Rightarrow>
                  (case getPersonList usefulSkills (emit (ConsoleSkills usefulSkills) s3) of
                     (Inl e, s4) \<Rightarrow> (Inl e, s4)
                   | (Inr personContainer, s4) \<Rightarrow>
                       (case findMatchingPerson w personContainer problem s4 of
                          (Inl e, s5) \<Rightarrow> (Inl e, s5)
                        | (Inr matchingPerson, s5) \<Rightarrow>
                            (Inr (), emit (ConsoleMatch matchingPerson) s5)))))"

datatype outcome = Returned | Rejected error | Exited nat

definition main :: "world \<Rightarrow> state \<Rightarrow> outcome \<times> state" where
  "main w s0 =
     (case connectDatabase w s0 of
        (Inl code, s) \<Rightarrow> (Exited code, s)
      | (Inr u, s) \<Rightarrow>
          (case workflow w ''I need a JavaScript and a C# expert.'' s of
             (Inl e, s') \<Rightarrow> (Rejected e, s')
           | (Inr u', s') \<Rightarrow> (Returned, s')))"

text \<open>A run starts with an empty trace.\<close>

definition initial :: "graph_store \<Rightarrow> bool list \<Rightarrow> state" where
  "initial g fs = \<lparr>store = g, outages = fs, trace = []\<rparr>"

section \<open>Notions used to state the properties\<close>

text \<open>The error an adapter call rejected with, read off its event.\<close>

fun rejected_with :: "event \<Rightarrow> error option" where
  "rejected_with (ExecuteQuery q r) = r"
| "rejected_with (ChatParse fmt systemContent userContent r) = r"
| "rejected_with ev = None"

fun is_match :: "event \<Rightarrow> bool" where
  "is_match (ConsoleMatch m) = True"
| "is_match ev = False"

text \<open>Events of the write path: a merge query, or the extraction call for a biography.\<close>

fun is_write :: "event \<Rightarrow> bool" where
  "is_write (ExecuteQuery (MergeHasSkill p k) r) = True"
| "is_write (ChatParse PersonFormat systemContent userContent r) = True"
| "is_write ev = False"

fun is_person_query :: "event \<Rightarrow> bool" where
  "is_person_query (ExecuteQuery (MatchPersonsWithSkill k) r) = True"
| "is_person_query ev = False"

text \<open>
  The answer of the store to the person query for a skill (step 3 of the spec calls it
  \<open>listPersonsWithSkill\<close>).
\<close>

definition listPersonsWithSkill :: "graph_store \<Rightarrow> string \<Rightarrow> string list" where
  "listPersonsWithSkill g skillName = fst (run_query (MatchPersonsWithSkill skillName) g)"

text \<open>
  The reference definition of the person-skill map, after the words of the spec: for each
  skill, for each person holding it, append the skill to that person's list, creating the
  list if this is the person's first appearance.
\<close>

definition spec_append :: "string \<Rightarrow> string \<Rightarrow> (string \<rightharpoonup> string list) \<Rightarrow> (string \<rightharpoonup> string list)" where
  "spec_append skill person m =
     m(person \<mapsto> (case m person of None \<Rightarrow> [skill] | Some xs \<Rightarrow> xs @ [skill]))"

definition spec_person_skill_map ::
  "(string \<Rightarrow> string list) \<Rightarrow> string list \<Rightarrow> (string \<rightharpoonup> string list) \<Rightarrow> (string \<rightharpoonup> string list)" where
  "spec_person_skill_map holders skills m =
     fold (\<lambda>skill. fold (spec_append skill) (holders skill)) skills m"

text \<open>
  Worlds and stores for concrete runs: a world whose environment is set, whose driver
  connects and whose completion client gives fixed answers, and a store given by its
  skills and has-skill edges.
\<close>

definition fixed_world ::
  "(error + string list option) \<Rightarrow> (error + (string \<times> string) option) \<Rightarrow> world" where
  "fixed_world skills_answer match_answer =
     \<lparr>process_env = (\<lambda>name. Some ''set''),
      driver_connects = (\<lambda>uri username password. True),
      parse_person = (\<lambda>systemContent userContent. Inr None),
      parse_useful_skills = (\<lambda>systemContent userContent. skills_answer),
      parse_best_matching_person = (\<lambda>systemContent userContent. match_answer)\<rparr>"

definition store_of :: "string list \<Rightarrow> (string \<times> string) list \<Rightarrow> graph_store" where
  "store_of skills edges =
     \<lparr>person_nodes = remdups (map fst edges), skill_nodes = skills, has_skill = edges\<rparr>"

text \<open>The skills a person-skill map lists for a person; none for a person it does not hold.\<close>

definition skills_of :: "(string \<rightharpoonup> string list) \<Rightarrow> string \<Rightarrow> string list" where
  "skills_of m person = (case m person of None \<Rightarrow> [] | Some xs \<Rightarrow> xs)"

text \<open>
  A sequence of events ends well for a result when the first rejected call in it is its
  last event and the result is the error of that call.
\<close>

fun well_aborted :: "event list \<Rightarrow> (error + 'a) \<Rightarrow> bool" where
  "well_aborted [] r = True"
| "well_aborted (ev # evs) r =
     (case rejected_with ev of
        None \<Rightarrow> well_aborted evs r
      | Some e \<Rightarrow> evs = [] \<and> r = Inl e)"

text \<open>
  A step of the read path: it leaves the store as it is, only appends to the trace, what
  it appends ends well for its result, and it neither writes nor prints a match.
\<close>

definition read_only_step :: "(state \<Rightarrow> (error + 'a) \<times> state) \<Rightarrow> bool" where
  "read_only_step m \<longleftrightarrow>
     (\<forall>s r s'. m s = (r, s') \<longrightarrow>
        store s' = store s
        \<and> (\<exists>evs. trace s' = trace s @ evs \<and> well_aborted evs r
              \<and> (\<forall>ev\<in>set evs. \<not> is_write ev \<and> \<not> is_match ev)))"

text \<open>
  A completion call brings no parsed result when it resolves with \<open>parsed\<close> null or when
  it rejects; the client rejects, among other things, on an answer it cannot parse into
  the response format.
\<close>

definition no_parsed_result :: "(error + 'a option) \<Rightarrow> bool" where
  "no_parsed_result answer = (case answer of Inr (Some parsed) \<Rightarrow> False | _ \<Rightarrow> True)"

section \<open>Basic facts\<close>

lemma emit_simps [simp]:
  "trace (emit ev s) = trace s @ [ev]"
  "store (emit ev s) = store s"
  "outages (emit ev s) = outages s"
  by (simp_all add: emit_def)

lemma console_simps [simp]:
  "trace (console line s) = trace s @ [Console line]"
  "store (console line s) = store s"
  "outages (console line s) = outages s"
  by (simp_all add: console_def)

lemma join_Nil_iff: "join '', '' xs = [] \<longleftrightarrow> xs = [] \<or> xs = [[]]"
  by (induction "'', ''" xs rule: join.induct) auto

lemma join_comma_Cons: "join '', '' (x # xs) = x @ concat (map (\<lambda>y. '', '' @ y) xs)"
  by (induction xs arbitrary: x) simp_all

lemma merge_into_idem: "merge_into x (merge_into x xs) = merge_into x xs"
  by (simp add: merge_into_def)

lemma executeQuery_Inr:
  "executeQuery q s = (Inr rows, s') \<Longrightarrow>
     rows = fst (run_query q (store s)) \<and> store s' = snd (run_query q (store s))
     \<and> trace s' = trace s @ [ExecuteQuery q None] \<and> outages s' = tl (outages s)"
  by (auto simp: executeQuery_def split: list.splits bool.splits prod.splits)

lemma executeQuery_Inl:
  "executeQuery q s = (Inl e, s') \<Longrightarrow>
     e = StoreUnreachable \<and> store s' = store s
     \<and> trace s' = trace s @ [ExecuteQuery q (Some StoreUnreachable)]
     \<and> outages s = True # outages s'"
  by (auto simp: executeQuery_def split: list.splits bool.splits prod.splits)

lemma addSkillToPerson_store:
  "addSkillToPerson p k s = (Inr (), s') \<Longrightarrow>
     store s' = snd (run_query (MergeHasSkill p k) (store s))"
  by (auto simp: addSkillToPerson_def split: prod.splits sum.splits dest!: executeQuery_Inr)

lemma executeQuery_no_outage:
  "outages s = [] \<Longrightarrow>
     executeQuery q s = (Inr (fst (run_query q (store s))),
       emit (ExecuteQuery q None) (s\<lparr>store := snd (run_query q (store s)), outages := []\<rparr>))"
  by (simp add: executeQuery_def split: prod.splits)

lemma executeQuery_answers:
  "outages s = [] \<or> hd (outages s) = False \<Longrightarrow>
     executeQuery q s = (Inr (fst (run_query q (store s))),
       emit (ExecuteQuery q None)
         (s\<lparr>store := snd (run_query q (store s)), outages := tl (outages s)\<rparr>))"
  by (auto simp: executeQuery_def split: list.splits bool.splits prod.splits)

lemma run_query_read [simp]:
  "snd (run_query MatchSkills g) = g"
  "snd (run_query (MatchPersonsWithSkill k) g) = g"
  by simp_all

lemma foldl_snoc: "foldl (\<lambda>xs x. xs @ [x]) acc ys = acc @ ys"
  by (induction ys arbitrary: acc) simp_all

lemma chat_parse_eq:
  "chat_parse fmt answer systemContent userContent s =
     (answer systemContent userContent,
      emit (ChatParse fmt systemContent userContent
              (case answer systemContent userContent of Inl e \<Rightarrow> Some e | Inr parsed \<Rightarrow> None)) s)"
  by (simp add: chat_parse_def split: sum.splits)

lemma findNecessarySkills_eq:
  "findNecessarySkills w problem known s =
     (parse_useful_skills w (necessarySystemContent known) problem,
      emit (ChatParse UsefulSkillsFormat (necessarySystemContent known) problem
              (case parse_useful_skills w (necessarySystemContent known) problem of
                 Inl e \<Rightarrow> Some e | Inr parsed \<Rightarrow> None))
        (console ''Finding necessary skills...'' s))"
  by (simp add: findNecessarySkills_def chat_parse_eq split: sum.splits)

lemma findMatchingPerson_eq:
  "findMatchingPerson w pc problem s =
     (parse_best_matching_person w matchSystemMessage (matchUserMessage pc problem),
      emit (ChatParse BestMatchingPersonFormat matchSystemMessage (matchUserMessage pc problem)
              (case parse_best_matching_person w matchSystemMessage (matchUserMessage pc problem) of
                 Inl e \<Rightarrow> Some e | Inr parsed \<Rightarrow> None))
        (console ''Finding matching person...'' s))"
  by (simp add: findMatchingPerson_def chat_parse_eq)

lemma getAllSkills_first_query_answers:
  "fs = [] \<or> hd fs = False \<Longrightarrow>
   getAllSkills (initial g fs) = (Inr (skill_nodes g), \<lparr>store = g, outages = tl fs,
        trace = [Console ''Getting all skills...'', ExecuteQuery MatchSkills None]\<rparr>)"
  by (auto simp: getAllSkills_def executeQuery_def initial_def emit_def console_def foldl_snoc
      split: list.splits)

lemma workflow_first_query_fails:
  "workflow w problem (initial g (True # fs)) =
     (Inl StoreUnreachable, \<lparr>store = g, outages = fs,
        trace = [Console ''Getting all skills...'',
                 ExecuteQuery MatchSkills (Some StoreUnreachable)]\<rparr>)"
  by (simp add: workflow_def getAllSkills_def executeQuery_def initial_def emit_def console_def)

lemma json_empty: "JSON_stringify [] = ''{}''"
  by (simp add: JSON_stringify_def own_entries_def)

text \<open>
  Every family of answers to the person queries of a skill sequence without repetition is
  the family of answers of some store, so a statement about every store is one about
  every such family.
\<close>

lemma holders_edges_other:
  "k \<notin> set ks \<Longrightarrow>
     filter (\<lambda>(p, k'). k' = k) (concat (map (\<lambda>k. map (\<lambda>p. (p, k)) (holders k)) ks)) = []"
  by (induction ks) (auto simp: filter_empty_conv)

lemma answers_realised_by_store:
  assumes "distinct ks" and "k \<in> set ks"
  shows "listPersonsWithSkill
           (store_of skills (concat (map (\<lambda>k. map (\<lambda>p. (p, k)) (holders k)) ks))) k = holders k"
proof -
  have "map fst (filter (\<lambda>(p, k'). k' = k) (concat (map (\<lambda>k. map (\<lambda>p. (p, k)) (holders k)) ks)))
      = holders k"
    using assms
  proof (induction ks)
    case Nil
    then show ?case by simp
  next
    case (Cons a ks)
    have same: "map fst (filter (\<lambda>(p, k'). k' = k) (map (\<lambda>p. (p, k)) (holders k))) = holders k"
      by (induction "holders k") (simp_all add: comp_def)
    have other: "a \<noteq> k \<Longrightarrow> filter (\<lambda>(p, k'). k' = k) (map (\<lambda>p. (p, a)) (holders a)) = []"
      by (auto simp: filter_empty_conv)
    show ?case
    proof (cases "a = k")
      case True
      with Cons.prems have "k \<notin> set ks" by simp
      with True same show ?thesis
        by (simp add: holders_edges_other)
    next
      case False
      with Cons other show ?thesis by simp
    qed
  qed
  then show ?thesis
    by (simp add: listPersonsWithSkill_def store_of_def)
qed

text \<open>The definitions a concrete run unfolds.\<close>

lemmas run_defs = getPersonList_def executeQuery_def initial_def store_of_def get_property_def
  object_prototype_keys_def listPersonsWithSkill_def

section \<open>The system prompt of step 2\<close>

text \<open>
  Claim C2, as the spec states it: when the known-skill list is empty, the system prompt
  of step 2 differs from the prompt for any non-empty list, by an explicit branch. It
  fails: \<open>findNecessarySkills\<close> has no branch, and the list that holds only the empty
  name joins to the empty string, as the empty list does.
\<close>

theorem necessary_prompt_empty_name_counterexample:
  "[[]] \<noteq> ([] :: string list) \<and> necessarySystemContent [[]] = necessarySystemContent []"
  by (simp add: necessarySystemContent_def)

text \<open>
  Claim C2, amended: for every known-skill list, the system prompt of step 2 is the
  instruction followed by the skill names, the first as it is and each further one after
  a comma and a space; there is no branch on the list. For the empty list it is the bare
  instruction, with no skill name in it, and it differs from the prompt of every
  known-skill list other than the empty list and the list of the empty name. The explicit branch on the empty list is the one
  of \<open>extractSkills\<close>, where, for one person, the prompt for the empty list differs from
  the prompt for every non-empty list. The prompt computed is the one the completion
  client receives.
\<close>

theorem necessary_prompt_is_instruction_and_joined_skills:
  "necessarySystemContent existingSkills =
     ''Find the skills out of the following list that could help the most with the problem the user describes. ''
     @ (case existingSkills of
          [] \<Rightarrow> []
        | name # names \<Rightarrow> name @ concat (map (\<lambda>next. '', '' @ next) names))
   \<and> necessarySystemContent [] =
     ''Find the skills out of the following list that could help the most with the problem the user describes. ''
   \<and> (existingSkills \<noteq> [] \<and> existingSkills \<noteq> [[]] \<longrightarrow>
        necessarySystemContent existingSkills \<noteq> necessarySystemContent [])
   \<and> (existingSkills \<noteq> [] \<longrightarrow>
        extractSystemContent person existingSkills \<noteq> extractSystemContent person [])
   \<and> trace (snd (findNecessarySkills w problem existingSkills s)) =
        trace s @ [Console ''Finding necessary skills...'',
          ChatParse UsefulSkillsFormat (necessarySystemContent existingSkills) problem
            (case parse_useful_skills w (necessarySystemContent existingSkills) problem of
               Inl e \<Rightarrow> Some e | Inr parsed \<Rightarrow> None)]"
proof -
  have every: "necessarySystemContent existingSkills =
     ''Find the skills out of the following list that could help the most with the problem the user describes. ''
     @ (case existingSkills of
          [] \<Rightarrow> []
        | name # names \<Rightarrow> name @ concat (map (\<lambda>next. '', '' @ next) names))"
  proof (cases existingSkills)
    case Nil
    then show ?thesis by (simp add: necessarySystemContent_def)
  next
    case (Cons name names)
    show ?thesis
      unfolding necessarySystemContent_def Cons join_comma_Cons by simp
  qed
  have bare: "necessarySystemContent [] =
     ''Find the skills out of the following list that could help the most with the problem the user describes. ''"
    by (simp add: necessarySystemContent_def)
  have differs: "existingSkills \<noteq> [] \<and> existingSkills \<noteq> [[]] \<longrightarrow>
        necessarySystemContent existingSkills \<noteq> necessarySystemContent []"
    by (simp add: necessarySystemContent_def join_Nil_iff)
  have branch: "existingSkills \<noteq> [] \<longrightarrow>
        extractSystemContent person existingSkills \<noteq> extractSystemContent person []"
    by (simp add: extractSystemContent_def)
  have sent: "trace (snd (findNecessarySkills w problem existingSkills s)) =
        trace s @ [Console ''Finding necessary skills...'',
          ChatParse UsefulSkillsFormat (necessarySystemContent existingSkills) problem
            (case parse_useful_skills w (necessarySystemContent existingSkills) problem of
               Inl e \<Rightarrow> Some e | Inr parsed \<Rightarrow> None)]"
    by (simp add: findNecessarySkills_def chat_parse_def split: sum.splits)
  from every bare differs branch sent show ?thesis by blast
qed

theorem necessary_prompt_is_instruction_and_joined_skills_witness:
  "[''Java'', ''JavaScript'', ''Rust''] \<noteq> [] \<and> [''Java'', ''JavaScript'', ''Rust''] \<noteq> [[]]
   \<and> necessarySystemContent [''Java'', ''JavaScript'', ''Rust''] =
       ''Find the skills out of the following list that could help the most with the problem the user describes. Java, JavaScript, Rust''
   \<and> necessarySystemContent [''Java'', ''JavaScript'', ''Rust''] \<noteq> necessarySystemContent []
   \<and> extractSystemContent ''Lius Hohmann'' [''Java'', ''JavaScript'', ''Rust'']
       \<noteq> extractSystemContent ''Lius Hohmann'' []"
proof -
  let ?known = "[''Java'', ''JavaScript'', ''Rust'']"
  note run = necessary_prompt_is_instruction_and_joined_skills
    [where existingSkills = ?known and person = "''Lius Hohmann''"
       and w = "fixed_world (Inr None) (Inr None)" and problem = "''I need a Java expert.''"
       and s = "initial (store_of ?known []) []"]
  have nonempty: "?known \<noteq> [] \<and> ?known \<noteq> [[]]"
    by simp
  from run have "necessarySystemContent ?known =
     ''Find the skills out of the following list that could help the most with the problem the user describes. ''
     @ (case ?known of
          [] \<Rightarrow> []
        | name # names \<Rightarrow> name @ concat (map (\<lambda>next. '', '' @ next) names))"
    by blast
  then have prompt: "necessarySystemContent ?known =
       ''Find the skills out of the following list that could help the most with the problem the user describes. Java, JavaScript, Rust''"
    by simp
  from run have "?known \<noteq> [] \<and> ?known \<noteq> [[]] \<longrightarrow>
      necessarySystemContent ?known \<noteq> necessarySystemContent []"
    by blast
  with nonempty have differs: "necessarySystemContent ?known \<noteq> necessarySystemContent []"
    by blast
  from run have "?known \<noteq> [] \<longrightarrow>
      extractSystemContent ''Lius Hohmann'' ?known \<noteq> extractSystemContent ''Lius Hohmann'' []"
    by blast
  with nonempty have branch:
    "extractSystemContent ''Lius Hohmann'' ?known \<noteq> extractSystemContent ''Lius Hohmann'' []"
    by blast
  from nonempty prompt differs branch show ?thesis
    by blast
qed

section \<open>Assigning a skill\<close>

text \<open>
  Claim C6: calling \<open>addSkillToPerson\<close> twice in a row, both calls answered by the store,
  leaves the store in the state the first call left it in. The first call creates the
  person node, the skill node and the has-skill edge only where each is absent, and a
  store without duplicate edges has none afterwards.
\<close>

theorem addSkillToPerson_twice_is_once:
  assumes "addSkillToPerson person skill s = (Inr (), s1)"
      and "addSkillToPerson person skill s1 = (Inr (), s2)"
  shows "store s2 = store s1
     \<and> person_nodes (store s1) =
         (if person \<in> set (person_nodes (store s)) then person_nodes (store s)
          else person_nodes (store s) @ [person])
     \<and> skill_nodes (store s1) =
         (if skill \<in> set (skill_nodes (store s)) then skill_nodes (store s)
          else skill_nodes (store s) @ [skill])
     \<and> has_skill (store s1) =
         (if (person, skill) \<in> set (has_skill (store s)) then has_skill (store s)
          else has_skill (store s) @ [(person, skill)])
     \<and> (distinct (has_skill (store s)) \<longrightarrow> distinct (has_skill (store s2)))"
proof -
  have once: "store s1 = snd (run_query (MergeHasSkill person skill) (store s))"
    using assms(1) by (rule addSkillToPerson_store)
  have twice: "store s2 = snd (run_query (MergeHasSkill person skill) (store s1))"
    using assms(2) by (rule addSkillToPerson_store)
  have same: "store s2 = store s1"
    unfolding twice once by (simp add: merge_into_idem)
  have nodes: "person_nodes (store s1) = merge_into person (person_nodes (store s))"
    "skill_nodes (store s1) = merge_into skill (skill_nodes (store s))"
    "has_skill (store s1) = merge_into (person, skill) (has_skill (store s))"
    unfolding once by simp_all
  show ?thesis
    using same nodes by (simp add: merge_into_def)
qed

theorem addSkillToPerson_twice_is_once_witness:
  "addSkillToPerson ''Ada Lovelace'' ''Java'' (initial (store_of [''Rust''] []) []) =
     (Inr (), snd (addSkillToPerson ''Ada Lovelace'' ''Java'' (initial (store_of [''Rust''] []) [])))
   \<and> store (snd (addSkillToPerson ''Ada Lovelace'' ''Java''
        (snd (addSkillToPerson ''Ada Lovelace'' ''Java'' (initial (store_of [''Rust''] []) []))))) =
     \<lparr>person_nodes = [''Ada Lovelace''], skill_nodes = [''Rust'', ''Java''],
      has_skill = [(''Ada Lovelace'', ''Java'')]\<rparr>"
proof -
  let ?s = "initial (store_of [''Rust''] []) []"
  let ?s1 = "snd (addSkillToPerson ''Ada Lovelace'' ''Java'' ?s)"
  let ?s2 = "snd (addSkillToPerson ''Ada Lovelace'' ''Java'' ?s1)"
  have h1: "addSkillToPerson ''Ada Lovelace'' ''Java'' ?s = (Inr (), ?s1)"
    by (simp add: addSkillToPerson_def executeQuery_def initial_def store_of_def)
  have h2: "addSkillToPerson ''Ada Lovelace'' ''Java'' ?s1 = (Inr (), ?s2)"
    by (simp add: addSkillToPerson_def executeQuery_def initial_def store_of_def)
  have once: "store ?s1 =
     \<lparr>person_nodes = [''Ada Lovelace''], skill_nodes = [''Rust'', ''Java''],
      has_skill = [(''Ada Lovelace'', ''Java'')]\<rparr>"
    by (simp add: addSkillToPerson_def executeQuery_def initial_def store_of_def merge_into_def)
  from addSkillToPerson_twice_is_once [OF h1 h2] have "store ?s2 = store ?s1" by simp
  with once h1 show ?thesis by simp
qed

section \<open>Locating candidate persons\<close>

text \<open>
  Claim C10: called with the empty skill sequence, \<open>getPersonList\<close> sends no query to the
  store (its only event is its console line) and returns the empty container.
\<close>

theorem getPersonList_empty:
  "getPersonList [] s =
     (Inr [], console ''Getting all persons having the necessary skills...'' s)
   \<and> trace (snd (getPersonList [] s)) =
     trace s @ [Console ''Getting all persons having the necessary skills...'']
   \<and> store (snd (getPersonList [] s)) = store s"
  by (simp add: getPersonList_def)

subsection \<open>The container against the reference definition\<close>

lemma get_property_cases:
  "get_property pc p = Undefined \<Longrightarrow> map_of pc p = None"
  "get_property pc p = Array xs \<Longrightarrow> map_of pc p = Some xs"
  "get_property pc p = Inherited \<Longrightarrow> p \<in> set object_prototype_keys"
  by (auto simp: get_property_def split: option.splits if_splits)

lemma add_records_refines:
  "add_records k rows pc = Inr pc' \<Longrightarrow> map_of pc' = fold (spec_append k) rows (map_of pc)"
proof (induction rows arbitrary: pc)
  case Nil
  then show ?case by simp
next
  case (Cons p rows)
  show ?case
  proof (cases "get_property pc p")
    case Undefined
    then have "map_of (AList.update p [k] pc) = spec_append k p (map_of pc)"
      by (simp add: spec_append_def update_conv' get_property_cases)
    with Cons Undefined show ?thesis by simp
  next
    case (Array xs)
    then have "map_of (AList.map_entry p (\<lambda>xs. xs @ [k]) pc) = spec_append k p (map_of pc)"
      by (simp add: spec_append_def map_of_map_entry get_property_cases)
    with Cons Array show ?thesis by simp
  next
    case Inherited
    with Cons.prems show ?thesis by simp
  qed
qed

lemma add_records_distinct:
  "add_records k rows pc = Inr pc' \<Longrightarrow> distinct (map fst pc) \<Longrightarrow> distinct (map fst pc')"
proof (induction rows arbitrary: pc)
  case Nil
  then show ?case by simp
next
  case (Cons p rows)
  then show ?case
    by (cases "get_property pc p") (auto simp: distinct_update distinct_map_entry)
qed

lemma add_records_total:
  "set rows \<inter> set object_prototype_keys = {} \<Longrightarrow> \<exists>pc'. add_records k rows pc = Inr pc'"
proof (induction rows arbitrary: pc)
  case Nil
  then show ?case by simp
next
  case (Cons p rows)
  then have "get_property pc p \<noteq> Inherited"
    by (auto dest: get_property_cases(3))
  with Cons show ?case
    by (cases "get_property pc p") auto
qed

lemma query_skills_refines:
  "query_skills ks pc s = (Inr pc', s') \<Longrightarrow>
     map_of pc' = spec_person_skill_map (listPersonsWithSkill (store s)) ks (map_of pc)
     \<and> (distinct (map fst pc) \<longrightarrow> distinct (map fst pc'))"
proof (induction ks arbitrary: pc s)
  case Nil
  then show ?case by (simp add: spec_person_skill_map_def)
next
  case (Cons k ks)
  from Cons.prems obtain rows s1 pc1 where
    q: "executeQuery (MatchPersonsWithSkill k) s = (Inr rows, s1)"
    and a: "add_records k rows pc = Inr pc1"
    and r: "query_skills ks pc1 s1 = (Inr pc', s')"
    by (auto split: prod.splits sum.splits)
  from executeQuery_Inr [OF q] have rows: "rows = listPersonsWithSkill (store s) k"
    and st: "store s1 = store s"
    by (simp_all add: listPersonsWithSkill_def)
  from Cons.IH [OF r] st have
    "map_of pc' = spec_person_skill_map (listPersonsWithSkill (store s)) ks (map_of pc1)"
    "distinct (map fst pc1) \<longrightarrow> distinct (map fst pc')"
    by simp_all
  with add_records_refines [OF a] add_records_distinct [OF a] rows show ?case
    by (simp add: spec_person_skill_map_def)
qed

lemma query_skills_total:
  "\<forall>k\<in>set ks. set (listPersonsWithSkill (store s) k) \<inter> set object_prototype_keys = {} \<Longrightarrow>
   True \<notin> set (take (length ks) (outages s)) \<Longrightarrow>
   \<exists>pc' s'. query_skills ks pc s = (Inr pc', s')"
proof (induction ks arbitrary: pc s)
  case Nil
  then show ?case by simp
next
  case (Cons k ks)
  let ?rows = "listPersonsWithSkill (store s) k"
  let ?s1 = "emit (ExecuteQuery (MatchPersonsWithSkill k) None)
     (s\<lparr>store := snd (run_query (MatchPersonsWithSkill k) (store s)), outages := tl (outages s)\<rparr>)"
  from Cons.prems(2) have ans: "outages s = [] \<or> hd (outages s) = False"
    by (cases "outages s") auto
  have q: "executeQuery (MatchPersonsWithSkill k) s = (Inr ?rows, ?s1)"
    using executeQuery_answers [OF ans] by (simp add: listPersonsWithSkill_def)
  from Cons.prems(1) obtain pc1 where a: "add_records k ?rows pc = Inr pc1"
    using add_records_total [of ?rows k pc] by auto
  have st: "store ?s1 = store s" by simp
  have out: "True \<notin> set (take (length ks) (outages ?s1))"
    using Cons.prems(2) by (cases "outages s") auto
  from Cons.prems(1) st
  have "\<forall>k\<in>set ks. set (listPersonsWithSkill (store ?s1) k) \<inter> set object_prototype_keys = {}"
    by simp
  from Cons.IH [OF this out] obtain pc' s' where "query_skills ks pc1 ?s1 = (Inr pc', s')"
    by blast
  with q a show ?case by simp
qed

text \<open>
  Whenever \<open>getPersonList\<close> returns a container, it is the reference map, with one entry
  per person; and it does return one when the store answers every query and no person
  found has the name of a member of \<open>Object.prototype\<close>.
\<close>

lemma getPersonList_refines_spec:
  assumes "getPersonList ks s = (Inr pc, s')"
  shows "map_of pc = spec_person_skill_map (listPersonsWithSkill (store s)) ks Map.empty"
    and "distinct (map fst pc)"
  using query_skills_refines [of ks "[]" _ pc s'] assms
  by (simp_all add: getPersonList_def)

lemma getPersonList_returns:
  assumes "\<forall>k\<in>set ks. set (listPersonsWithSkill (store s) k) \<inter> set object_prototype_keys = {}"
      and "True \<notin> set (take (length ks) (outages s))"
  shows "\<exists>pc s'. getPersonList ks s = (Inr pc, s')"
  unfolding getPersonList_def
  by (rule query_skills_total) (use assms in simp_all)

subsection \<open>What the reference definition lists\<close>

lemma skills_of_empty [simp]: "skills_of Map.empty p = []"
  by (simp add: skills_of_def)

lemma spec_append_skills_of:
  "skills_of (spec_append k q m) p = skills_of m p @ (if p = q then [k] else [])"
  by (simp add: spec_append_def skills_of_def split: option.splits)

lemma spec_append_dom: "dom (spec_append k q m) = insert q (dom m)"
  by (simp add: spec_append_def)

lemma fold_spec_append_skills_of:
  "skills_of (fold (spec_append k) rows m) p = skills_of m p @ replicate (count_list rows p) k"
  by (induction rows arbitrary: m) (simp_all add: spec_append_skills_of)

lemma fold_spec_append_dom: "dom (fold (spec_append k) rows m) = dom m \<union> set rows"
  by (induction rows arbitrary: m) (simp_all add: spec_append_dom)

lemma spec_map_skills_of:
  "skills_of (spec_person_skill_map holders ks m) p =
     skills_of m p @ concat (map (\<lambda>k. replicate (count_list (holders k) p) k) ks)"
  unfolding spec_person_skill_map_def
  by (induction ks arbitrary: m) (simp_all add: fold_spec_append_skills_of)

lemma spec_map_dom:
  "dom (spec_person_skill_map holders ks m) = dom m \<union> (\<Union>k\<in>set ks. set (holders k))"
  unfolding spec_person_skill_map_def
  by (induction ks arbitrary: m) (auto simp: fold_spec_append_dom)

lemma replicate_count_distinct:
  "distinct xs \<Longrightarrow> replicate (count_list xs p) k = (if p \<in> set xs then [k] else [])"
  by (induction xs) auto

lemma concat_holders_filter:
  "\<forall>k\<in>set ks. distinct (holders k) \<Longrightarrow>
     concat (map (\<lambda>k. replicate (count_list (holders k) p) k) ks) =
     filter (\<lambda>k. p \<in> set (holders k)) ks"
  by (induction ks) (simp_all add: replicate_count_distinct)

text \<open>
  When no answer of the store lists a person twice, the reference map holds exactly the
  persons some answer lists, each with the skills whose answer lists the person, in the
  order of the skill sequence.
\<close>

lemma reference_map_entries:
  assumes "\<forall>k\<in>set ks. distinct (holders k)"
  shows "spec_person_skill_map holders ks Map.empty p =
     (if \<exists>k\<in>set ks. p \<in> set (holders k)
      then Some (filter (\<lambda>k. p \<in> set (holders k)) ks) else None)"
proof (cases "\<exists>k\<in>set ks. p \<in> set (holders k)")
  case True
  then have "p \<in> dom (spec_person_skill_map holders ks Map.empty)"
    by (simp add: spec_map_dom)
  then obtain xs where xs: "spec_person_skill_map holders ks Map.empty p = Some xs"
    by blast
  then have "xs = skills_of (spec_person_skill_map holders ks Map.empty) p"
    by (simp add: skills_of_def)
  also have "\<dots> = filter (\<lambda>k. p \<in> set (holders k)) ks"
    using assms by (simp add: spec_map_skills_of concat_holders_filter)
  finally show ?thesis
    using True xs by simp
next
  case False
  then have "p \<notin> dom (spec_person_skill_map holders ks Map.empty)"
    by (simp add: spec_map_dom)
  with False show ?thesis
    by (simp add: domIff)
qed

subsection \<open>Repeated skills in an entry\<close>

text \<open>
  Claim C3, as the spec states it: for every skill sequence, also one that names a skill
  twice, and every answer of the store, no entry of the container lists a skill more than
  once. It fails: nothing removes duplicates, so a skill named twice is queried twice and
  pushed twice to the entry of a person who holds it.
\<close>

theorem getPersonList_repeated_skill_counterexample:
  "fst (getPersonList [''Java'', ''Java'']
          (initial (store_of [''Java''] [(''Ada Lovelace'', ''Java'')]) []))
     = Inr [(''Ada Lovelace'', [''Java'', ''Java''])]
   \<and> \<not> distinct [''Java'', ''Java'']"
  by (simp add: run_defs)

text \<open>
  Claim C3, amended: for every skill sequence that names no skill twice and every store
  whose answer to each of these skills lists no person twice, no entry of the container
  that \<open>getPersonList\<close> returns lists a skill more than once.
\<close>

theorem getPersonList_entries_distinct:
  assumes "distinct ks"
      and "\<forall>k\<in>set ks. distinct (listPersonsWithSkill (store s) k)"
      and "getPersonList ks s = (Inr pc, s')"
  shows "\<forall>(p, skills)\<in>set pc. distinct skills"
proof (clarify)
  fix p skills
  assume "(p, skills) \<in> set pc"
  with getPersonList_refines_spec [OF assms(3)]
  have "spec_person_skill_map (listPersonsWithSkill (store s)) ks Map.empty p = Some skills"
    by (metis map_of_is_SomeI)
  then have "skills = filter (\<lambda>k. p \<in> set (listPersonsWithSkill (store s) k)) ks"
    using reference_map_entries [OF assms(2), of p] by (simp split: if_splits)
  then show "distinct skills"
    using assms(1) by simp
qed

theorem getPersonList_entries_distinct_witness:
  "distinct [''JavaScript'', ''C#'']
   \<and> fst (getPersonList [''JavaScript'', ''C#'']
        (initial (store_of [''JavaScript'', ''C#'']
           [(''Lius Hohmann'', ''C#''), (''Lius Hohmann'', ''JavaScript'')]) []))
      = Inr [(''Lius Hohmann'', [''JavaScript'', ''C#''])]
   \<and> distinct (snd (hd [(''Lius Hohmann'', [''JavaScript'', ''C#''])]))"
proof -
  let ?g = "store_of [''JavaScript'', ''C#'']
     [(''Lius Hohmann'', ''C#''), (''Lius Hohmann'', ''JavaScript'')]"
  let ?s = "initial ?g []"
  let ?ks = "[''JavaScript'', ''C#'']"
  let ?pc = "[(''Lius Hohmann'', [''JavaScript'', ''C#''])]"
  have h1: "distinct ?ks" by simp
  have h2: "\<forall>k\<in>set ?ks. distinct (listPersonsWithSkill (store ?s) k)"
    by (simp add: run_defs)
  have r: "fst (getPersonList ?ks ?s) = Inr ?pc"
    by (simp add: run_defs)
  then have h3: "getPersonList ?ks ?s = (Inr ?pc, snd (getPersonList ?ks ?s))"
    by (metis prod.collapse)
  from getPersonList_entries_distinct [OF h1 h2 h3] have "distinct (snd (hd ?pc))"
    by simp
  with h1 r show ?thesis by blast
qed

subsection \<open>A person named like a member of the object prototype\<close>

text \<open>
  Claim C4: for every non-empty skill sequence the container is the reference map: it
  holds exactly the persons the store returns for one of the skills, each with the skills
  held, in order. \<open>getPersonList_refines_spec\<close>, \<open>getPersonList_returns\<close> and
  \<open>reference_map_entries\<close> show this for every store in which no person found is named
  like a member of \<open>Object.prototype\<close>. For such a name the code does not build the map:
  the container is an object literal, so \<open>personContainer["constructor"]\<close> is the
  inherited constructor, which is truthy; the first appearance of the person takes the
  \<open>push\<close> branch and throws a TypeError, where the reference map has the entry.
\<close>

theorem getPersonList_inherited_name_throws:
  "fst (getPersonList [''Java'']
          (initial (store_of [''Java''] [(''constructor'', ''Java'')]) []))
     = Inl TypeError
   \<and> spec_person_skill_map
        (listPersonsWithSkill (store_of [''Java''] [(''constructor'', ''Java'')]))
        [''Java''] Map.empty ''constructor'' = Some [''Java'']"
  by (simp add: run_defs spec_person_skill_map_def spec_append_def)

section \<open>The workflow\<close>

subsection \<open>What each step does to the store and the trace\<close>

lemma well_aborted_append:
  "well_aborted evs1 (Inr x) \<Longrightarrow> well_aborted evs2 r \<Longrightarrow> well_aborted (evs1 @ evs2) r"
  by (induction evs1) (auto split: option.splits)

lemma well_aborted_split:
  "well_aborted (pre @ ev # post) r \<Longrightarrow> rejected_with ev = Some e \<Longrightarrow> post = [] \<and> r = Inl e"
  by (induction pre) (auto split: option.splits)

lemma well_aborted_Inr:
  "well_aborted evs (Inr x) \<longleftrightarrow> (\<forall>ev\<in>set evs. rejected_with ev = None)"
  by (induction evs) (auto split: option.splits)

lemma well_aborted_Inl:
  "well_aborted evs (Inl e :: error + 'a) \<Longrightarrow> well_aborted evs (Inl e :: error + 'b)"
  by (induction evs) (auto split: option.splits)

lemma read_only_stepD:
  assumes "read_only_step m" and "m s = (r, s')"
  obtains evs where "store s' = store s" "trace s' = trace s @ evs" "well_aborted evs r"
    "\<forall>ev\<in>set evs. \<not> is_write ev" "\<forall>ev\<in>set evs. \<not> is_match ev"
  using assms unfolding read_only_step_def by blast

lemma read_only_getAllSkills: "read_only_step getAllSkills"
  unfolding read_only_step_def
proof (intro allI impI)
  fix s r s'
  assume run: "getAllSkills s = (r, s')"
  let ?s0 = "console ''Getting all skills...'' s"
  obtain r0 s1 where q: "executeQuery MatchSkills ?s0 = (r0, s1)"
    by (cases "executeQuery MatchSkills ?s0")
  show "store s' = store s \<and> (\<exists>evs. trace s' = trace s @ evs \<and> well_aborted evs r
           \<and> (\<forall>ev\<in>set evs. \<not> is_write ev \<and> \<not> is_match ev))"
  proof (cases r0)
    case (Inl e)
    with q run have r: "r = Inl e" "s' = s1"
      by (simp_all add: getAllSkills_def)
    from q Inl have "executeQuery MatchSkills ?s0 = (Inl e, s1)" by simp
    from executeQuery_Inl [OF this] r show ?thesis by simp
  next
    case (Inr rows)
    with q run have r: "r = Inr (foldl (\<lambda>xs x. xs @ [x]) [] rows)" "s' = s1"
      by (simp_all add: getAllSkills_def)
    from q Inr have "executeQuery MatchSkills ?s0 = (Inr rows, s1)" by simp
    from executeQuery_Inr [OF this] r show ?thesis by simp
  qed
qed

lemma read_only_findNecessarySkills: "read_only_step (findNecessarySkills w problem known)"
  unfolding read_only_step_def findNecessarySkills_eq
  by (auto split: sum.splits)

lemma read_only_findMatchingPerson: "read_only_step (findMatchingPerson w pc problem)"
  unfolding read_only_step_def findMatchingPerson_eq
  by (auto split: sum.splits)

lemma query_skills_effect:
  "query_skills ks pc s = (r, s') \<Longrightarrow>
     store s' = store s
     \<and> (\<exists>evs. trace s' = trace s @ evs \<and> well_aborted evs r
           \<and> (\<forall>ev\<in>set evs. is_person_query ev))"
proof (induction ks arbitrary: pc s)
  case Nil
  then show ?case by auto
next
  case (Cons k ks)
  obtain r0 s1 where q: "executeQuery (MatchPersonsWithSkill k) s = (r0, s1)"
    by (cases "executeQuery (MatchPersonsWithSkill k) s")
  show ?case
  proof (cases r0)
    case (Inl e)
    with q Cons.prems have r: "r = Inl e" "s' = s1" by simp_all
    from q Inl have "executeQuery (MatchPersonsWithSkill k) s = (Inl e, s1)" by simp
    from executeQuery_Inl [OF this] r show ?thesis by simp
  next
    case (Inr rows)
    with q have "executeQuery (MatchPersonsWithSkill k) s = (Inr rows, s1)" by simp
    note sent = executeQuery_Inr [OF this]
    show ?thesis
    proof (cases "add_records k rows pc")
      case (Inl e)
      with q Inr Cons.prems have "r = Inl e" "s' = s1" by simp_all
      with sent show ?thesis by simp
    next
      case pc1: (Inr pc1)
      with q Inr Cons.prems have "query_skills ks pc1 s1 = (r, s')" by simp
      from Cons.IH [OF this] obtain evs where
        "store s' = store s1" "trace s' = trace s1 @ evs"
        "well_aborted evs r" "\<forall>ev\<in>set evs. is_person_query ev"
        by blast
      with sent show ?thesis by simp
    qed
  qed
qed

lemma is_person_query_quiet: "is_person_query ev \<Longrightarrow> \<not> is_write ev \<and> \<not> is_match ev"
  by (cases ev rule: is_person_query.cases) simp_all

lemma read_only_getPersonList: "read_only_step (getPersonList ks)"
  unfolding read_only_step_def
proof (intro allI impI)
  fix s r s'
  assume "getPersonList ks s = (r, s')"
  then have "query_skills ks []
      (console ''Getting all persons having the necessary skills...'' s) = (r, s')"
    by (simp add: getPersonList_def)
  from query_skills_effect [OF this] obtain evs where
    "store s' = store s"
    "trace s' = trace s @ Console ''Getting all persons having the necessary skills...'' # evs"
    "well_aborted evs r" "\<forall>ev\<in>set evs. is_person_query ev"
    by auto
  then show "store s' = store s \<and> (\<exists>evs. trace s' = trace s @ evs \<and> well_aborted evs r
           \<and> (\<forall>ev\<in>set evs. \<not> is_write ev \<and> \<not> is_match ev))"
    by (auto simp: is_person_query_quiet)
qed

lemma connectDatabase_effect:
  "connectDatabase w s = (r, s') \<Longrightarrow>
     store s' = store s \<and> outages s' = outages s
     \<and> (\<exists>evs. trace s' = trace s @ evs
           \<and> (\<forall>ev\<in>set evs. \<not> is_write ev \<and> \<not> is_match ev \<and> rejected_with ev = None))"
  by (auto simp: connectDatabase_def Let_def split: if_splits)

text \<open>
  The whole workflow: the store is left as it is, what is appended to the trace ends well
  for the result, nothing is written, and a run that ends in an error prints no match.
\<close>

lemma workflow_effect:
  assumes run: "workflow w problem s = (r, s')"
  shows "store s' = store s
     \<and> (\<exists>evs. trace s' = trace s @ evs \<and> well_aborted evs r
           \<and> (\<forall>ev\<in>set evs. \<not> is_write ev)
           \<and> ((\<exists>e. r = Inl e) \<longrightarrow> (\<forall>ev\<in>set evs. \<not> is_match ev)))"
proof -
  obtain r1 s1 where g1: "getAllSkills s = (r1, s1)"
    by (cases "getAllSkills s")
  from read_only_stepD [OF read_only_getAllSkills g1] obtain evs1 where
    e1: "store s1 = store s" "trace s1 = trace s @ evs1" "well_aborted evs1 r1"
      "\<forall>ev\<in>set evs1. \<not> is_write ev" "\<forall>ev\<in>set evs1. \<not> is_match ev"
    by blast
  show ?thesis
  proof (cases r1)
    case (Inl e)
    with g1 run have "r = Inl e" "s' = s1"
      by (simp_all add: workflow_def)
    with e1 Inl show ?thesis
      by (auto intro: well_aborted_Inl)
  next
    case all: (Inr allSkills)
    obtain r2 s2 where g2: "findNecessarySkills w problem allSkills s1 = (r2, s2)"
      by (cases "findNecessarySkills w problem allSkills s1")
    from read_only_stepD [OF read_only_findNecessarySkills g2] obtain evs2 where
      e2: "store s2 = store s1" "trace s2 = trace s1 @ evs2" "well_aborted evs2 r2"
        "\<forall>ev\<in>set evs2. \<not> is_write ev" "\<forall>ev\<in>set evs2. \<not> is_match ev"
      by blast
    from e1 all have q1: "\<forall>ev\<in>set evs1. rejected_with ev = None"
      by (simp add: well_aborted_Inr)
    show ?thesis
    proof (cases r2)
      case (Inl e)
      with g1 g2 all run have res: "r = Inl e" "s' = s2"
        by (simp_all add: workflow_def)
      from e2 Inl have "well_aborted evs2 (Inl e :: error + unit)"
        by (auto intro: well_aborted_Inl)
      with q1 have "well_aborted (evs1 @ evs2) (Inl e :: error + unit)"
        by (simp add: well_aborted_append well_aborted_Inr)
      with res e1 e2 show ?thesis by auto
    next
      case parsed: (Inr parsed)
      from e2 parsed have q2: "\<forall>ev\<in>set evs2. rejected_with ev = None"
        by (simp add: well_aborted_Inr)
      show ?thesis
      proof (cases parsed)
        case None
        with g1 g2 all parsed run have res: "r = Inr ()" "s' = s2"
          by (simp_all add: workflow_def)
        from q1 q2 have "well_aborted (evs1 @ evs2) (Inr () :: error + unit)"
          by (auto simp: well_aborted_Inr)
        with res e1 e2 show ?thesis by auto
      next
        case (Some usefulSkills)
        let ?s3 = "emit (ConsoleSkills usefulSkills) s2"
        obtain r4 s4 where g4: "getPersonList usefulSkills ?s3 = (r4, s4)"
          by (cases "getPersonList usefulSkills ?s3")
        from read_only_stepD [OF read_only_getPersonList g4] obtain evs4 where
          e4: "store s4 = store ?s3" "trace s4 = trace ?s3 @ evs4" "well_aborted evs4 r4"
            "\<forall>ev\<in>set evs4. \<not> is_write ev" "\<forall>ev\<in>set evs4. \<not> is_match ev"
          by blast
        let ?pre = "evs1 @ evs2 @ [ConsoleSkills usefulSkills]"
        from q1 q2 have q3: "\<forall>ev\<in>set ?pre. rejected_with ev = None"
          by auto
        from e1 e2 have w3: "\<forall>ev\<in>set ?pre. \<not> is_write ev" and m3: "\<forall>ev\<in>set ?pre. \<not> is_match ev"
          by auto
        from e1 e2 e4 have t4: "trace s4 = trace s @ ?pre @ evs4" and st4: "store s4 = store s"
          by simp_all
        show ?thesis
        proof (cases r4)
          case (Inl e)
          with g1 g2 g4 all parsed Some run have res: "r = Inl e" "s' = s4"
            by (simp_all add: workflow_def)
          from e4 Inl have "well_aborted evs4 (Inl e :: error + unit)"
            by (auto intro: well_aborted_Inl)
          with q3 have "well_aborted (?pre @ evs4) (Inl e :: error + unit)"
            by (intro well_aborted_append [where x = "()"]) (simp_all add: well_aborted_Inr)
          moreover from w3 e4 have "\<forall>ev\<in>set (?pre @ evs4). \<not> is_write ev" by auto
          moreover from m3 e4 have "\<forall>ev\<in>set (?pre @ evs4). \<not> is_match ev" by auto
          ultimately show ?thesis using res t4 st4 by blast
        next
          case pc: (Inr personContainer)
          obtain r5 s5 where g5: "findMatchingPerson w personContainer problem s4 = (r5, s5)"
            by (cases "findMatchingPerson w personContainer problem s4")
          from read_only_stepD [OF read_only_findMatchingPerson g5] obtain evs5 where
            e5: "store s5 = store s4" "trace s5 = trace s4 @ evs5" "well_aborted evs5 r5"
              "\<forall>ev\<in>set evs5. \<not> is_write ev" "\<forall>ev\<in>set evs5. \<not> is_match ev"
            by blast
          from e4 pc have q4: "\<forall>ev\<in>set evs4. rejected_with ev = None"
            by (simp add: well_aborted_Inr)
          let ?pre5 = "?pre @ evs4"
          from q3 q4 have q5: "\<forall>ev\<in>set ?pre5. rejected_with ev = None" by auto
          from w3 e4 have w5: "\<forall>ev\<in>set ?pre5. \<not> is_write ev" by auto
          from m3 e4 have m5: "\<forall>ev\<in>set ?pre5. \<not> is_match ev" by auto
          from t4 e5 have t5: "trace s5 = trace s @ ?pre5 @ evs5" by simp
          from st4 e5 have st5: "store s5 = store s" by simp
          show ?thesis
          proof (cases r5)
            case (Inl e)
            with g1 g2 g4 g5 all parsed Some pc run have res: "r = Inl e" "s' = s5"
              by (simp_all add: workflow_def)
            from e5 Inl have "well_aborted evs5 (Inl e :: error + unit)"
              by (auto intro: well_aborted_Inl)
            with q5 have "well_aborted (?pre5 @ evs5) (Inl e :: error + unit)"
              by (intro well_aborted_append [where x = "()"]) (simp_all add: well_aborted_Inr)
            moreover from w5 e5 have "\<forall>ev\<in>set (?pre5 @ evs5). \<not> is_write ev" by auto
            moreover from m5 e5 have "\<forall>ev\<in>set (?pre5 @ evs5). \<not> is_match ev" by auto
            ultimately show ?thesis using res t5 st5 by blast
          next
            case m: (Inr matchingPerson)
            with g1 g2 g4 g5 all parsed Some pc run have res:
              "r = Inr ()" "s' = emit (ConsoleMatch matchingPerson) s5"
              by (simp_all add: workflow_def)
            let ?all = "?pre5 @ evs5 @ [ConsoleMatch matchingPerson]"
            from e5 m have "\<forall>ev\<in>set evs5. rejected_with ev = None"
              by (simp add: well_aborted_Inr)
            with q5 have "well_aborted ?all (Inr () :: error + unit)"
              by (auto simp: well_aborted_Inr)
            moreover from w5 e5 have "\<forall>ev\<in>set ?all. \<not> is_write ev" by auto
            moreover from res t5 have "trace s' = trace s @ ?all" by simp
            moreover from res st5 have "store s' = store s" by simp
            ultimately show ?thesis using res by blast
          qed
        qed
      qed
    qed
  qed
qed

text \<open>The definitions a concrete run of the workflow unfolds.\<close>

lemmas workflow_defs = workflow_def getAllSkills_def findNecessarySkills_eq findMatchingPerson_eq
  getPersonList_def executeQuery_def initial_def store_of_def fixed_world_def get_property_def
  object_prototype_keys_def emit_def console_def

subsection \<open>Failure of an adapter call\<close>

text \<open>
  Claim C8: if any adapter call of a run fails (the store rejects a query in any step, or
  the completion client rejects a call), the error propagates and the workflow aborts at
  that point: the rejected call is the last event of the run, the run ends with the error
  of that call and not with a result, and no match is printed.
\<close>

theorem adapter_failure_aborts_workflow:
  assumes "workflow w problem (initial g fs) = (r, s')"
      and "trace s' = pre @ ev # post"
      and "rejected_with ev = Some e"
  shows "post = [] \<and> r = Inl e \<and> (\<forall>m. ConsoleMatch m \<notin> set (trace s'))"
proof -
  from workflow_effect [OF assms(1)] obtain evs where
    evs: "trace s' = evs" "well_aborted evs r"
      "(\<exists>e. r = Inl e) \<longrightarrow> (\<forall>ev\<in>set evs. \<not> is_match ev)"
    by (auto simp: initial_def)
  from evs assms(2) have "well_aborted (pre @ ev # post) r" by simp
  from well_aborted_split [OF this assms(3)] have last_event: "post = []" "r = Inl e"
    by simp_all
  with evs have "\<forall>ev\<in>set (trace s'). \<not> is_match ev" by blast
  then have "\<forall>m. ConsoleMatch m \<notin> set (trace s')" by fastforce
  with last_event show ?thesis by blast
qed

theorem adapter_failure_aborts_workflow_witness:
  "workflow (fixed_world (Inr (Some [''Java'', ''Rust''])) (Inr None)) ''I need a Java expert.''
     (initial (store_of [''Java'', ''Rust''] [(''Ada Lovelace'', ''Java'')]) [False, False, True])
   = (Inl StoreUnreachable,
      \<lparr>store = store_of [''Java'', ''Rust''] [(''Ada Lovelace'', ''Java'')], outages = [],
       trace =
         [Console ''Getting all skills...'', ExecuteQuery MatchSkills None,
          Console ''Finding necessary skills...'',
          ChatParse UsefulSkillsFormat (necessarySystemContent [''Java'', ''Rust''])
            ''I need a Java expert.'' None,
          ConsoleSkills [''Java'', ''Rust''],
          Console ''Getting all persons having the necessary skills...'',
          ExecuteQuery (MatchPersonsWithSkill ''Java'') None]
         @ [ExecuteQuery (MatchPersonsWithSkill ''Rust'') (Some StoreUnreachable)]\<rparr>)"
proof -
  let ?w = "fixed_world (Inr (Some [''Java'', ''Rust''])) (Inr None)"
  let ?g = "store_of [''Java'', ''Rust''] [(''Ada Lovelace'', ''Java'')]"
  let ?pre = "[Console ''Getting all skills...'', ExecuteQuery MatchSkills None,
          Console ''Finding necessary skills...'',
          ChatParse UsefulSkillsFormat (necessarySystemContent [''Java'', ''Rust''])
            ''I need a Java expert.'' None,
          ConsoleSkills [''Java'', ''Rust''],
          Console ''Getting all persons having the necessary skills...'',
          ExecuteQuery (MatchPersonsWithSkill ''Java'') None]"
  let ?ev = "ExecuteQuery (MatchPersonsWithSkill ''Rust'') (Some StoreUnreachable)"
  let ?run = "workflow ?w ''I need a Java expert.'' (initial ?g [False, False, True])"
  have h1: "?run = (fst ?run, snd ?run)" by simp
  have st: "snd ?run = \<lparr>store = ?g, outages = [], trace = ?pre @ [?ev]\<rparr>"
    by (simp add: workflow_defs)
  then have h2: "trace (snd ?run) = ?pre @ ?ev # []" by simp
  have h3: "rejected_with ?ev = Some StoreUnreachable" by simp
  from adapter_failure_aborts_workflow [OF h1 h2 h3] have "fst ?run = Inl StoreUnreachable"
    by blast
  with st show ?thesis
    by (metis prod.collapse)
qed

text \<open>The same holds for \<open>main\<close> as a whole, where the run ends as a rejected promise.\<close>

lemma adapter_failure_aborts_main:
  assumes "main w (initial g fs) = (out, s')"
      and "trace s' = pre @ ev # post"
      and "rejected_with ev = Some e"
  shows "post = [] \<and> out = Rejected e \<and> (\<forall>m. ConsoleMatch m \<notin> set (trace s'))"
proof -
  obtain r1 s1 where c: "connectDatabase w (initial g fs) = (r1, s1)"
    by (cases "connectDatabase w (initial g fs)")
  from connectDatabase_effect [OF c] obtain evs1 where
    e1: "trace s1 = evs1" "\<forall>ev\<in>set evs1. \<not> is_match ev \<and> rejected_with ev = None"
    by (auto simp: initial_def)
  show ?thesis
  proof (cases r1)
    case (Inl code)
    with c assms(1) have "s' = s1" by (simp add: main_def)
    with e1 assms(2,3) show ?thesis by auto
  next
    case (Inr u)
    obtain r s2 where run: "workflow w ''I need a JavaScript and a C# expert.'' s1 = (r, s2)"
      by (cases "workflow w ''I need a JavaScript and a C# expert.'' s1")
    with c Inr assms(1) have out: "out = (case r of Inl e \<Rightarrow> Rejected e | Inr u \<Rightarrow> Returned)" "s' = s2"
      by (auto simp: main_def split: sum.splits)
    from workflow_effect [OF run] e1 obtain evs where
      evs: "trace s2 = evs1 @ evs" "well_aborted evs r"
        "(\<exists>e. r = Inl e) \<longrightarrow> (\<forall>ev\<in>set evs. \<not> is_match ev)"
      by auto
    from e1 have "well_aborted evs1 (Inr () :: error + unit)"
      by (simp add: well_aborted_Inr)
    from well_aborted_append [OF this evs(2)] evs(1) out(2) assms(2)
    have "well_aborted (pre @ ev # post) r" by simp
    from well_aborted_split [OF this assms(3)] have last_event: "post = []" "r = Inl e"
      by simp_all
    with evs e1 out have "\<forall>ev\<in>set (trace s'). \<not> is_match ev" by auto
    then have "\<forall>m. ConsoleMatch m \<notin> set (trace s')" by fastforce
    with last_event out show ?thesis by simp
  qed
qed

subsection \<open>The read path writes nothing\<close>

text \<open>
  Claim C9: a run of the workflow, and of \<open>main\<close> as a whole, leaves the store in the
  state it started in, and no event of the run is a write: no merge query is sent
  (\<open>addSkillToPerson\<close> is never called) and no extraction call for a biography is made
  (\<open>extractSkills\<close> is never called). The queries it sends are the two reading ones.
\<close>

theorem workflow_leaves_store_unchanged:
  "store (snd (workflow w problem (initial g fs))) = g
   \<and> (\<forall>ev\<in>set (trace (snd (workflow w problem (initial g fs)))). \<not> is_write ev)
   \<and> store (snd (main w (initial g fs))) = g
   \<and> (\<forall>ev\<in>set (trace (snd (main w (initial g fs)))). \<not> is_write ev)"
proof -
  have wf: "store (snd (workflow w problem s)) = store s
      \<and> (\<exists>evs. trace (snd (workflow w problem s)) = trace s @ evs
            \<and> (\<forall>ev\<in>set evs. \<not> is_write ev))"
    for problem s
    using workflow_effect [of w problem s "fst (workflow w problem s)" "snd (workflow w problem s)"]
    by auto
  have init: "store (initial g fs) = g" "trace (initial g fs) = []"
    by (simp_all add: initial_def)
  have part1: "store (snd (workflow w problem (initial g fs))) = g
     \<and> (\<forall>ev\<in>set (trace (snd (workflow w problem (initial g fs)))). \<not> is_write ev)"
    using wf [of problem "initial g fs"] init by auto
  obtain r1 s1 where c: "connectDatabase w (initial g fs) = (r1, s1)"
    by (cases "connectDatabase w (initial g fs)")
  from connectDatabase_effect [OF c] init obtain evs1 where
    e1: "store s1 = g" "trace s1 = evs1" "\<forall>ev\<in>set evs1. \<not> is_write ev"
    by auto
  have part2: "store (snd (main w (initial g fs))) = g
     \<and> (\<forall>ev\<in>set (trace (snd (main w (initial g fs)))). \<not> is_write ev)"
  proof (cases r1)
    case (Inl code)
    with c e1 show ?thesis by (simp add: main_def)
  next
    case (Inr u)
    let ?run = "workflow w ''I need a JavaScript and a C# expert.'' s1"
    from c Inr have "snd (main w (initial g fs)) = snd ?run"
      by (simp add: main_def split: prod.splits sum.splits)
    with wf [of "''I need a JavaScript and a C# expert.''" s1] e1 show ?thesis
      by auto
  qed
  from part1 part2 show ?thesis by blast
qed

theorem workflow_leaves_store_unchanged_witness:
  "store (snd (main (fixed_world (Inr (Some [''JavaScript'', ''C#''])) (Inr (Some (''Lius Hohmann'', ''knows both''))))
        (initial (store_of [''JavaScript'', ''C#''] [(''Lius Hohmann'', ''JavaScript''), (''Lius Hohmann'', ''C#'')]) [])))
     = store_of [''JavaScript'', ''C#''] [(''Lius Hohmann'', ''JavaScript''), (''Lius Hohmann'', ''C#'')]
   \<and> list_all (\<lambda>ev. \<not> is_write ev)
        (trace (snd (main (fixed_world (Inr (Some [''JavaScript'', ''C#''])) (Inr (Some (''Lius Hohmann'', ''knows both''))))
        (initial (store_of [''JavaScript'', ''C#''] [(''Lius Hohmann'', ''JavaScript''), (''Lius Hohmann'', ''C#'')]) []))))
   \<and> fst (main (fixed_world (Inr (Some [''JavaScript'', ''C#''])) (Inr (Some (''Lius Hohmann'', ''knows both''))))
        (initial (store_of [''JavaScript'', ''C#''] [(''Lius Hohmann'', ''JavaScript''), (''Lius Hohmann'', ''C#'')]) []))
     = Returned"
proof -
  let ?w = "fixed_world (Inr (Some [''JavaScript'', ''C#''])) (Inr (Some (''Lius Hohmann'', ''knows both'')))"
  let ?g = "store_of [''JavaScript'', ''C#''] [(''Lius Hohmann'', ''JavaScript''), (''Lius Hohmann'', ''C#'')]"
  from workflow_leaves_store_unchanged [of ?w "''p''" ?g "[]"]
  have "store (snd (main ?w (initial ?g []))) = ?g"
    and "list_all (\<lambda>ev. \<not> is_write ev) (trace (snd (main ?w (initial ?g []))))"
    by (simp_all add: list_all_iff)
  moreover have "fst (main ?w (initial ?g [])) = Returned"
    by (simp add: main_def connectDatabase_def unset_def workflow_defs)
  ultimately show ?thesis by blast
qed

subsection \<open>No relevant skills\<close>

text \<open>
  Claim C1, as the spec states it: if step 2 yields an empty skill sequence, steps 3 and 4
  are not executed and the workflow returns no match. It fails: \<open>if (usefulSkills)\<close> tests
  an array, and the empty array is truthy. In the run below step 2 yields the empty
  sequence; \<open>getPersonList\<close> is entered, \<open>findMatchingPerson\<close> calls the completion client
  with the empty container, and the answer is printed as the match.
\<close>

theorem empty_skill_sequence_runs_steps_3_and_4_counterexample:
  "fst (findNecessarySkills (fixed_world (Inr (Some [])) (Inr (Some (''Ada Lovelace'', ''the only person known''))))
          ''I need a Java expert.'' [''Rust'']
          (initial (store_of [''Rust''] [(''Ada Lovelace'', ''Rust'')]) []))
     = Inr (Some [])
   \<and> workflow (fixed_world (Inr (Some [])) (Inr (Some (''Ada Lovelace'', ''the only person known''))))
        ''I need a Java expert.'' (initial (store_of [''Rust''] [(''Ada Lovelace'', ''Rust'')]) [])
     = (Inr (),
        \<lparr>store = store_of [''Rust''] [(''Ada Lovelace'', ''Rust'')], outages = [],
         trace =
           [Console ''Getting all skills...'', ExecuteQuery MatchSkills None,
            Console ''Finding necessary skills...'',
            ChatParse UsefulSkillsFormat (necessarySystemContent [''Rust''])
              ''I need a Java expert.'' None,
            ConsoleSkills [],
            Console ''Getting all persons having the necessary skills...'',
            Console ''Finding matching person...'',
            ChatParse BestMatchingPersonFormat matchSystemMessage
              (matchUserMessage [] ''I need a Java expert.'') None,
            ConsoleMatch (Some (''Ada Lovelace'', ''the only person known''))]\<rparr>)"
  by (simp add: workflow_defs)

text \<open>
  Claim C1, amended: if step 2 yields no parsed result (absent), steps 3 and 4 are not
  executed and no match is produced: the run returns with a trace that ends with the
  completion call of step 2 (or, when the store does not answer the first query, ends
  there with the error), so \<open>getPersonList\<close> and \<open>findMatchingPerson\<close> are not entered. If
  step 2 yields the empty sequence and the store answers the first query, step 3 is
  entered and sends no query to the store, and step 4 is executed with the empty
  container; its answer, if the call returns, is printed.
\<close>

theorem workflow_short_circuits_on_absent_skills:
  "(parse_useful_skills w (necessarySystemContent (skill_nodes g)) problem = Inr None \<longrightarrow>
      workflow w problem (initial g fs) =
        (if fs = [] \<or> \<not> hd fs
         then (Inr (), \<lparr>store = g, outages = tl fs,
                 trace = [Console ''Getting all skills...'', ExecuteQuery MatchSkills None,
                          Console ''Finding necessary skills...'',
                          ChatParse UsefulSkillsFormat (necessarySystemContent (skill_nodes g))
                            problem None]\<rparr>)
         else (Inl StoreUnreachable, \<lparr>store = g, outages = tl fs,
                 trace = [Console ''Getting all skills...'',
                          ExecuteQuery MatchSkills (Some StoreUnreachable)]\<rparr>)))
   \<and> (parse_useful_skills w (necessarySystemContent (skill_nodes g)) problem = Inr (Some [])
        \<and> (fs = [] \<or> \<not> hd fs) \<longrightarrow>
      trace (snd (workflow w problem (initial g fs))) =
        [Console ''Getting all skills...'', ExecuteQuery MatchSkills None,
         Console ''Finding necessary skills...'',
         ChatParse UsefulSkillsFormat (necessarySystemContent (skill_nodes g)) problem None,
         ConsoleSkills [],
         Console ''Getting all persons having the necessary skills...'',
         Console ''Finding matching person...''] @
        (case parse_best_matching_person w matchSystemMessage (matchUserMessage [] problem) of
           Inl e \<Rightarrow> [ChatParse BestMatchingPersonFormat matchSystemMessage
                       (matchUserMessage [] problem) (Some e)]
         | Inr matchingPerson \<Rightarrow>
                    [ChatParse BestMatchingPersonFormat matchSystemMessage
                       (matchUserMessage [] problem) None,
                     ConsoleMatch matchingPerson]))"
proof (intro conjI impI)
  assume absent: "parse_useful_skills w (necessarySystemContent (skill_nodes g)) problem = Inr None"
  show "workflow w problem (initial g fs) =
        (if fs = [] \<or> \<not> hd fs
         then (Inr (), \<lparr>store = g, outages = tl fs,
                 trace = [Console ''Getting all skills...'', ExecuteQuery MatchSkills None,
                          Console ''Finding necessary skills...'',
                          ChatParse UsefulSkillsFormat (necessarySystemContent (skill_nodes g))
                            problem None]\<rparr>)
         else (Inl StoreUnreachable, \<lparr>store = g, outages = tl fs,
                 trace = [Console ''Getting all skills...'',
                          ExecuteQuery MatchSkills (Some StoreUnreachable)]\<rparr>))"
  proof (cases "fs = [] \<or> \<not> hd fs")
    case True
    then have "fs = [] \<or> hd fs = False" by simp
    from getAllSkills_first_query_answers [OF this] absent True show ?thesis
      by (simp add: workflow_def findNecessarySkills_eq emit_def console_def)
  next
    case False
    then obtain fs' where "fs = True # fs'"
      by (cases fs) auto
    then show ?thesis
      by (simp add: workflow_first_query_fails)
  qed
next
  assume "parse_useful_skills w (necessarySystemContent (skill_nodes g)) problem = Inr (Some [])
        \<and> (fs = [] \<or> \<not> hd fs)"
  then have empty: "parse_useful_skills w (necessarySystemContent (skill_nodes g)) problem = Inr (Some [])"
    and "fs = [] \<or> hd fs = False"
    by simp_all
  note step1 = getAllSkills_first_query_answers [OF this(2)]
  show "trace (snd (workflow w problem (initial g fs))) =
        [Console ''Getting all skills...'', ExecuteQuery MatchSkills None,
         Console ''Finding necessary skills...'',
         ChatParse UsefulSkillsFormat (necessarySystemContent (skill_nodes g)) problem None,
         ConsoleSkills [],
         Console ''Getting all persons having the necessary skills...'',
         Console ''Finding matching person...''] @
        (case parse_best_matching_person w matchSystemMessage (matchUserMessage [] problem) of
           Inl e \<Rightarrow> [ChatParse BestMatchingPersonFormat matchSystemMessage
                       (matchUserMessage [] problem) (Some e)]
         | Inr matchingPerson \<Rightarrow>
                    [ChatParse BestMatchingPersonFormat matchSystemMessage
                       (matchUserMessage [] problem) None,
                     ConsoleMatch matchingPerson])"
    using empty unfolding workflow_def step1
    by (simp add: findNecessarySkills_eq findMatchingPerson_eq getPersonList_def split: sum.splits)
qed

theorem workflow_short_circuits_on_absent_skills_witness:
  "parse_useful_skills (fixed_world (Inr None) (Inr None))
      (necessarySystemContent (skill_nodes (store_of [''Rust''] [(''Ada Lovelace'', ''Rust'')])))
      ''I need a Java expert.'' = Inr None
   \<and> trace (snd (workflow (fixed_world (Inr None) (Inr None)) ''I need a Java expert.''
           (initial (store_of [''Rust''] [(''Ada Lovelace'', ''Rust'')]) [False]))) =
       [Console ''Getting all skills...'', ExecuteQuery MatchSkills None,
        Console ''Finding necessary skills...'',
        ChatParse UsefulSkillsFormat (necessarySystemContent [''Rust''])
          ''I need a Java expert.'' None]
   \<and> parse_useful_skills (fixed_world (Inr (Some [])) (Inr None))
      (necessarySystemContent (skill_nodes (store_of [''Rust''] [(''Ada Lovelace'', ''Rust'')])))
      ''I need a Java expert.'' = Inr (Some [])
   \<and> trace (snd (workflow (fixed_world (Inr (Some [])) (Inr None)) ''I need a Java expert.''
           (initial (store_of [''Rust''] [(''Ada Lovelace'', ''Rust'')]) [False]))) =
       [Console ''Getting all skills...'', ExecuteQuery MatchSkills None,
        Console ''Finding necessary skills...'',
        ChatParse UsefulSkillsFormat (necessarySystemContent [''Rust''])
          ''I need a Java expert.'' None,
        ConsoleSkills [],
        Console ''Getting all persons having the necessary skills...'',
        Console ''Finding matching person...'',
        ChatParse BestMatchingPersonFormat matchSystemMessage
          (matchUserMessage [] ''I need a Java expert.'') None,
        ConsoleMatch None]"
proof -
  let ?g = "store_of [''Rust''] [(''Ada Lovelace'', ''Rust'')]"
  let ?absent = "fixed_world (Inr None) (Inr None)"
  let ?empty = "fixed_world (Inr (Some [])) (Inr None)"
  have skills: "skill_nodes ?g = [''Rust'']"
    by (simp add: store_of_def)
  have h1: "parse_useful_skills ?absent (necessarySystemContent (skill_nodes ?g))
      ''I need a Java expert.'' = Inr None"
    by (simp add: fixed_world_def)
  have h2: "parse_useful_skills ?empty (necessarySystemContent (skill_nodes ?g))
      ''I need a Java expert.'' = Inr (Some [])"
    by (simp add: fixed_world_def)
  have answer: "parse_best_matching_person ?empty matchSystemMessage
      (matchUserMessage [] ''I need a Java expert.'') = Inr None"
    by (simp add: fixed_world_def)
  from workflow_short_circuits_on_absent_skills
    [where w = ?absent and g = ?g and problem = "''I need a Java expert.''" and fs = "[False]"] h1
  have a: "trace (snd (workflow ?absent ''I need a Java expert.'' (initial ?g [False]))) =
       [Console ''Getting all skills...'', ExecuteQuery MatchSkills None,
        Console ''Finding necessary skills...'',
        ChatParse UsefulSkillsFormat (necessarySystemContent [''Rust''])
          ''I need a Java expert.'' None]"
    by (simp add: skills)
  from workflow_short_circuits_on_absent_skills
    [where w = ?empty and g = ?g and problem = "''I need a Java expert.''" and fs = "[False]"] h2
  have b: "trace (snd (workflow ?empty ''I need a Java expert.'' (initial ?g [False]))) =
       [Console ''Getting all skills...'', ExecuteQuery MatchSkills None,
        Console ''Finding necessary skills...'',
        ChatParse UsefulSkillsFormat (necessarySystemContent [''Rust''])
          ''I need a Java expert.'' None,
        ConsoleSkills [],
        Console ''Getting all persons having the necessary skills...'',
        Console ''Finding matching person...'',
        ChatParse BestMatchingPersonFormat matchSystemMessage
          (matchUserMessage [] ''I need a Java expert.'') None,
        ConsoleMatch None]"
    by (simp add: answer skills)
  from h1 a h2 b show ?thesis by blast
qed

subsection \<open>No parseable result\<close>

text \<open>
  Claim C7, as the spec states it: whenever the completion call of step 2 brings no
  parseable structured result, \<open>findNecessarySkills\<close> returns the absent value rather than
  throwing, and the workflow raises no error. It fails: \<open>findNecessarySkills\<close> and \<open>main\<close>
  have no handler, so when the call rejects, as the client does on an answer it cannot
  parse, \<open>findNecessarySkills\<close> throws and the run ends with that error.
\<close>

theorem rejected_extraction_throws_counterexample:
  "no_parsed_result (parse_useful_skills (fixed_world (Inl ClientError) (Inr None))
      (necessarySystemContent [''Java'']) ''I need a Java expert.'')
   \<and> fst (findNecessarySkills (fixed_world (Inl ClientError) (Inr None))
          ''I need a Java expert.'' [''Java''] (initial (store_of [''Java''] []) []))
     = Inl ClientError
   \<and> workflow (fixed_world (Inl ClientError) (Inr None)) ''I need a Java expert.''
        (initial (store_of [''Java''] []) [])
     = (Inl ClientError,
        \<lparr>store = store_of [''Java''] [], outages = [],
         trace = [Console ''Getting all skills...'', ExecuteQuery MatchSkills None,
                  Console ''Finding necessary skills...'',
                  ChatParse UsefulSkillsFormat (necessarySystemContent [''Java''])
                    ''I need a Java expert.'' (Some ClientError)]\<rparr>)"
  by (simp add: no_parsed_result_def workflow_defs)

text \<open>
  Claim C7, amended: when the completion call of step 2 resolves with no parsed object
  (\<open>parsed\<close> is null), \<open>findNecessarySkills\<close> returns the absent value and does not throw,
  and the workflow takes no further action and raises no error: the run returns normally
  and its trace ends with that call. When the call rejects instead, \<open>findNecessarySkills\<close>
  throws the error of the call, no later step is executed and the run ends with that
  error. Both for a store that answers the first query.
\<close>

theorem absent_result_stops_and_rejection_propagates:
  "(parse_useful_skills w (necessarySystemContent (skill_nodes g)) problem = Inr None
      \<and> (fs = [] \<or> \<not> hd fs) \<longrightarrow>
      findNecessarySkills w problem (skill_nodes g) s =
        (Inr None,
         emit (ChatParse UsefulSkillsFormat (necessarySystemContent (skill_nodes g)) problem None)
           (console ''Finding necessary skills...'' s))
      \<and> workflow w problem (initial g fs) =
        (Inr (), \<lparr>store = g, outages = tl fs,
           trace = [Console ''Getting all skills...'', ExecuteQuery MatchSkills None,
                    Console ''Finding necessary skills...'',
                    ChatParse UsefulSkillsFormat (necessarySystemContent (skill_nodes g))
                      problem None]\<rparr>))
   \<and> (parse_useful_skills w (necessarySystemContent (skill_nodes g)) problem = Inl e
      \<and> (fs = [] \<or> \<not> hd fs) \<longrightarrow>
      findNecessarySkills w problem (skill_nodes g) s =
        (Inl e,
         emit (ChatParse UsefulSkillsFormat (necessarySystemContent (skill_nodes g)) problem (Some e))
           (console ''Finding necessary skills...'' s))
      \<and> workflow w problem (initial g fs) =
        (Inl e, \<lparr>store = g, outages = tl fs,
           trace = [Console ''Getting all skills...'', ExecuteQuery MatchSkills None,
                    Console ''Finding necessary skills...'',
                    ChatParse UsefulSkillsFormat (necessarySystemContent (skill_nodes g))
                      problem (Some e)]\<rparr>))"
proof (intro conjI impI)
  assume "parse_useful_skills w (necessarySystemContent (skill_nodes g)) problem = Inr None
      \<and> (fs = [] \<or> \<not> hd fs)"
  then have absent: "parse_useful_skills w (necessarySystemContent (skill_nodes g)) problem = Inr None"
    and "fs = [] \<or> hd fs = False"
    by simp_all
  note step1 = getAllSkills_first_query_answers [OF this(2)]
  show "findNecessarySkills w problem (skill_nodes g) s =
        (Inr None,
         emit (ChatParse UsefulSkillsFormat (necessarySystemContent (skill_nodes g)) problem None)
           (console ''Finding necessary skills...'' s))"
    using absent by (simp add: findNecessarySkills_eq)
  show "workflow w problem (initial g fs) =
        (Inr (), \<lparr>store = g, outages = tl fs,
           trace = [Console ''Getting all skills...'', ExecuteQuery MatchSkills None,
                    Console ''Finding necessary skills...'',
                    ChatParse UsefulSkillsFormat (necessarySystemContent (skill_nodes g))
                      problem None]\<rparr>)"
    using absent unfolding workflow_def step1
    by (simp add: findNecessarySkills_eq emit_def console_def)
next
  assume "parse_useful_skills w (necessarySystemContent (skill_nodes g)) problem = Inl e
      \<and> (fs = [] \<or> \<not> hd fs)"
  then have rejects: "parse_useful_skills w (necessarySystemContent (skill_nodes g)) problem = Inl e"
    and "fs = [] \<or> hd fs = False"
    by simp_all
  note step1 = getAllSkills_first_query_answers [OF this(2)]
  show "findNecessarySkills w problem (skill_nodes g) s =
        (Inl e,
         emit (ChatParse UsefulSkillsFormat (necessarySystemContent (skill_nodes g)) problem (Some e))
           (console ''Finding necessary skills...'' s))"
    using rejects by (simp add: findNecessarySkills_eq)
  show "workflow w problem (initial g fs) =
        (Inl e, \<lparr>store = g, outages = tl fs,
           trace = [Console ''Getting all skills...'', ExecuteQuery MatchSkills None,
                    Console ''Finding necessary skills...'',
                    ChatParse UsefulSkillsFormat (necessarySystemContent (skill_nodes g))
                      problem (Some e)]\<rparr>)"
    using rejects unfolding workflow_def step1
    by (simp add: findNecessarySkills_eq emit_def console_def)
qed

theorem absent_result_stops_and_rejection_propagates_witness:
  "parse_useful_skills (fixed_world (Inr None) (Inr None))
      (necessarySystemContent (skill_nodes (store_of [''Java''] []))) ''I need a Java expert.''
     = Inr None
   \<and> fst (workflow (fixed_world (Inr None) (Inr None)) ''I need a Java expert.''
        (initial (store_of [''Java''] []) [False, True])) = Inr ()
   \<and> length (trace (snd (workflow (fixed_world (Inr None) (Inr None)) ''I need a Java expert.''
        (initial (store_of [''Java''] []) [False, True])))) = 4
   \<and> parse_useful_skills (fixed_world (Inl ClientError) (Inr None))
      (necessarySystemContent (skill_nodes (store_of [''Java''] []))) ''I need a Java expert.''
     = Inl ClientError
   \<and> fst (workflow (fixed_world (Inl ClientError) (Inr None)) ''I need a Java expert.''
        (initial (store_of [''Java''] []) [False, True])) = Inl ClientError"
proof -
  let ?g = "store_of [''Java''] []"
  have h1: "parse_useful_skills (fixed_world (Inr None) (Inr None))
      (necessarySystemContent (skill_nodes ?g)) ''I need a Java expert.'' = Inr None"
    by (simp add: fixed_world_def)
  have h2: "parse_useful_skills (fixed_world (Inl ClientError) (Inr None))
      (necessarySystemContent (skill_nodes ?g)) ''I need a Java expert.'' = Inl ClientError"
    by (simp add: fixed_world_def)
  have f: "[False, True] = [] \<or> \<not> hd [False, True]"
    by simp
  from absent_result_stops_and_rejection_propagates
    [where w = "fixed_world (Inr None) (Inr None)" and g = ?g
       and problem = "''I need a Java expert.''" and fs = "[False, True]"] h1 f
  have a: "fst (workflow (fixed_world (Inr None) (Inr None)) ''I need a Java expert.''
        (initial ?g [False, True])) = Inr ()"
    and b: "length (trace (snd (workflow (fixed_world (Inr None) (Inr None)) ''I need a Java expert.''
        (initial ?g [False, True])))) = 4"
    by simp_all
  from absent_result_stops_and_rejection_propagates
    [where w = "fixed_world (Inl ClientError) (Inr None)" and g = ?g
       and problem = "''I need a Java expert.''" and fs = "[False, True]" and e = ClientError]
    h2 f
  have c: "fst (workflow (fixed_world (Inl ClientError) (Inr None)) ''I need a Java expert.''
        (initial ?g [False, True])) = Inl ClientError"
    by simp
  from h1 a b h2 c show ?thesis by blast
qed

subsection \<open>The Java expert scenario\<close>

lemma json_ada: \<open>JSON_stringify [(''Ada Lovelace'', [''Java''])] = ''{"Ada Lovelace":["Java"]}''\<close>
  by (simp add: JSON_stringify_def own_entries_def array_index_def is_digit_def
      stringify_array_def quote_json_def quote_char_def)

text \<open>
  Claim C5: with the known skills Java, JavaScript and Rust and the problem
  \<open>I need a Java expert.\<close>, the extraction call of step 2 has the three skill names in its
  system prompt; if it returns Java and the store returns Ada Lovelace for Java, the
  container is the map from Ada Lovelace to Java, and the match call receives this map as
  JSON text, with the problem text, in its user message. The theorem gives the whole
  trace of the run, with both messages spelled out.
\<close>

theorem java_expert_scenario:
  assumes \<open>skill_nodes g = [''Java'', ''JavaScript'', ''Rust'']\<close>
      and \<open>parse_useful_skills w
             ''Find the skills out of the following list that could help the most with the problem the user describes. Java, JavaScript, Rust''
             ''I need a Java expert.'' = Inr (Some [''Java''])\<close>
      and \<open>listPersonsWithSkill g ''Java'' = [''Ada Lovelace'']\<close>
  shows \<open>trace (snd (workflow w ''I need a Java expert.'' (initial g []))) =
     [Console ''Getting all skills...'', ExecuteQuery MatchSkills None,
      Console ''Finding necessary skills...'',
      ChatParse UsefulSkillsFormat
        ''Find the skills out of the following list that could help the most with the problem the user describes. Java, JavaScript, Rust''
        ''I need a Java expert.'' None,
      ConsoleSkills [''Java''],
      Console ''Getting all persons having the necessary skills...'',
      ExecuteQuery (MatchPersonsWithSkill ''Java'') None,
      Console ''Finding matching person...''] @
     (case parse_best_matching_person w
             ''Find the person with the best matching skillset to solve the problem and justify your decision shortly.''
             ''The problem is the following: 'I need a Java expert.' and the persons with the skills are the following: {"Ada Lovelace":["Java"]} '' of
        Inl e \<Rightarrow>
          [ChatParse BestMatchingPersonFormat
             ''Find the person with the best matching skillset to solve the problem and justify your decision shortly.''
             ''The problem is the following: 'I need a Java expert.' and the persons with the skills are the following: {"Ada Lovelace":["Java"]} ''
             (Some e)]
      | Inr matchingPerson \<Rightarrow>
          [ChatParse BestMatchingPersonFormat
             ''Find the person with the best matching skillset to solve the problem and justify your decision shortly.''
             ''The problem is the following: 'I need a Java expert.' and the persons with the skills are the following: {"Ada Lovelace":["Java"]} ''
             None,
           ConsoleMatch matchingPerson])
   \<and> fst (getPersonList [''Java''] (initial g [])) = Inr [(''Ada Lovelace'', [''Java''])]\<close>
proof -
  have prompt: "necessarySystemContent [''Java'', ''JavaScript'', ''Rust''] =
     ''Find the skills out of the following list that could help the most with the problem the user describes. Java, JavaScript, Rust''"
    by (simp add: necessarySystemContent_def)
  have message: \<open>matchUserMessage [(''Ada Lovelace'', [''Java''])] ''I need a Java expert.'' =
     ''The problem is the following: 'I need a Java expert.' and the persons with the skills are the following: {"Ada Lovelace":["Java"]} ''\<close>
    by (simp add: matchUserMessage_def json_ada)
  have step1: "getAllSkills (initial g []) =
      (Inr [''Java'', ''JavaScript'', ''Rust''], \<lparr>store = g, outages = tl [],
        trace = [Console ''Getting all skills...'', ExecuteQuery MatchSkills None]\<rparr>)"
    using getAllSkills_first_query_answers [of "[]" g] assms(1) by simp
  have rows: "fst (run_query (MatchPersonsWithSkill ''Java'') g) = [''Ada Lovelace'']"
    using assms(3) by (simp add: listPersonsWithSkill_def)
  have step3: "getPersonList [''Java''] s =
      (Inr [(''Ada Lovelace'', [''Java''])],
       emit (ExecuteQuery (MatchPersonsWithSkill ''Java'') None)
         (console ''Getting all persons having the necessary skills...'' s))"
    if "store s = g" "outages s = []" for s
    using that rows
    by (simp add: getPersonList_def executeQuery_no_outage get_property_def
        object_prototype_keys_def emit_def console_def)
  have run: "trace (snd (workflow w ''I need a Java expert.'' (initial g []))) =
     [Console ''Getting all skills...'', ExecuteQuery MatchSkills None,
      Console ''Finding necessary skills...'',
      ChatParse UsefulSkillsFormat (necessarySystemContent [''Java'', ''JavaScript'', ''Rust''])
        ''I need a Java expert.'' None,
      ConsoleSkills [''Java''],
      Console ''Getting all persons having the necessary skills...'',
      ExecuteQuery (MatchPersonsWithSkill ''Java'') None,
      Console ''Finding matching person...''] @
     (case parse_best_matching_person w matchSystemMessage
             (matchUserMessage [(''Ada Lovelace'', [''Java''])] ''I need a Java expert.'') of
        Inl e \<Rightarrow>
          [ChatParse BestMatchingPersonFormat matchSystemMessage
             (matchUserMessage [(''Ada Lovelace'', [''Java''])] ''I need a Java expert.'') (Some e)]
      | Inr matchingPerson \<Rightarrow>
          [ChatParse BestMatchingPersonFormat matchSystemMessage
             (matchUserMessage [(''Ada Lovelace'', [''Java''])] ''I need a Java expert.'') None,
           ConsoleMatch matchingPerson])"
    using assms(2) unfolding workflow_def step1
    by (simp add: findNecessarySkills_eq findMatchingPerson_eq step3 prompt split: sum.splits)
  have container: "fst (getPersonList [''Java''] (initial g [])) = Inr [(''Ada Lovelace'', [''Java''])]"
    using step3 [of "initial g []"] by (simp add: initial_def)
  from run container show ?thesis
    unfolding prompt message matchSystemMessage_def by blast
qed

theorem java_expert_scenario_witness:
  \<open>skill_nodes (store_of [''Java'', ''JavaScript'', ''Rust''] [(''Ada Lovelace'', ''Java'')])
     = [''Java'', ''JavaScript'', ''Rust'']
   \<and> listPersonsWithSkill (store_of [''Java'', ''JavaScript'', ''Rust''] [(''Ada Lovelace'', ''Java'')])
        ''Java'' = [''Ada Lovelace'']
   \<and> trace (snd (workflow
        (fixed_world (Inr (Some [''Java''])) (Inr (Some (''Ada Lovelace'', ''She knows Java.''))))
        ''I need a Java expert.''
        (initial (store_of [''Java'', ''JavaScript'', ''Rust''] [(''Ada Lovelace'', ''Java'')]) []))) =
     [Console ''Getting all skills...'', ExecuteQuery MatchSkills None,
      Console ''Finding necessary skills...'',
      ChatParse UsefulSkillsFormat
        ''Find the skills out of the following list that could help the most with the problem the user describes. Java, JavaScript, Rust''
        ''I need a Java expert.'' None,
      ConsoleSkills [''Java''],
      Console ''Getting all persons having the necessary skills...'',
      ExecuteQuery (MatchPersonsWithSkill ''Java'') None,
      Console ''Finding matching person...'',
      ChatParse BestMatchingPersonFormat
        ''Find the person with the best matching skillset to solve the problem and justify your decision shortly.''
        ''The problem is the following: 'I need a Java expert.' and the persons with the skills are the following: {"Ada Lovelace":["Java"]} ''
        None,
      ConsoleMatch (Some (''Ada Lovelace'', ''She knows Java.''))]\<close>
proof -
  let ?w = "fixed_world (Inr (Some [''Java''])) (Inr (Some (''Ada Lovelace'', ''She knows Java.'')))"
  let ?g = "store_of [''Java'', ''JavaScript'', ''Rust''] [(''Ada Lovelace'', ''Java'')]"
  have h1: "skill_nodes ?g = [''Java'', ''JavaScript'', ''Rust'']"
    by (simp add: store_of_def)
  have h2: "parse_useful_skills ?w
             ''Find the skills out of the following list that could help the most with the problem the user describes. Java, JavaScript, Rust''
             ''I need a Java expert.'' = Inr (Some [''Java''])"
    by (simp add: fixed_world_def)
  have h3: "listPersonsWithSkill ?g ''Java'' = [''Ada Lovelace'']"
    by (simp add: listPersonsWithSkill_def store_of_def)
  have answer: "parse_best_matching_person ?w sys usr = Inr (Some (''Ada Lovelace'', ''She knows Java.''))"
    for sys usr
    by (simp add: fixed_world_def)
  from java_expert_scenario [OF h1 h2 h3] h1 h3 show ?thesis
    by (simp add: answer)
qed

end
